theory Spec2Isabelle
  imports Main
begin

section \<open>Inventory tracker backend (backend.js)\<close>

text \<open>
  The backend is six Express route handlers over two Mongoose collections, with one
  middleware, \<open>authenticateToken\<close>, in front of the four item routes. The handlers are
  modelled as functions from the request's inputs and the database to the response and
  the new database. The packages the handlers call (mongoose, bcryptjs, jsonwebtoken) are
  not code of the repository: what they compute and the texts they write are parameters
  of the model (record \<open>libs\<close>), the two collections are lists of documents, and
  everything the outside world decides during one request (the clock, the salt, the
  generated ObjectId, a storage call that throws) is read from the record \<open>env\<close>.
\<close>

subsection \<open>Documents, schemas and the database\<close>

text \<open>
  A field of a parsed JSON body is absent (JavaScript \<open>undefined\<close>), \<open>null\<close>, or a value
  of the type the schema gives the path. The handlers check none of them.
\<close>

datatype 'a field = Undefined | Null | Val 'a

text \<open>An ObjectId, written as its 24 hexadecimal digits.\<close>

type_synonym oid = string

text \<open>
  UserSchema (lines 41-44): username and password, both required strings. A stored user
  has passed validation, so both are strings.
\<close>

record user =
  user_id :: oid
  username :: string
  password :: string

text \<open>
  ItemSchema (lines 47-52): name (required), quantity (required, default 0), description,
  lastUpdated (default Date.now). A document in memory may hold \<open>undefined\<close> or \<open>null\<close>
  at a path; \<open>save\<close> validates it. Quantities are integers and times are milliseconds
  since the epoch, as \<open>Date.now()\<close> counts them.
\<close>

record item =
  item_id :: oid
  name :: "string field"
  quantity :: "int field"
  description :: "string field"
  lastUpdated :: nat

record db =
  users :: "user list"
  items :: "item list"

text \<open>
  An error thrown inside a handler: mongoose's ValidationError and CastError, an error of
  the MongoDB driver, and the plain \<open>Error\<close> bcryptjs throws. \<open>message\<close> is the
  \<open>err.message\<close> the handlers read.
\<close>

datatype js_error = ValidationError string | CastError string | MongoError string | Error string

fun message :: "js_error \<Rightarrow> string" where
  "message (ValidationError m) = m"
| "message (CastError m) = m"
| "message (MongoError m) = m"
| "message (Error m) = m"

text \<open>The storage calls the handlers make; each may throw.\<close>

datatype dbop = OpUserFindOne | OpUserSave | OpItemFind | OpItemSave | OpItemFindById | OpItemDeleteOne

record env =
  now :: nat
  salt :: string
  new_id :: oid
  fault :: "dbop \<Rightarrow> string option"

text \<open>What \<open>jwt.verify\<close> hands to its callback on success: the signed payload and its times.\<close>

record claims =
  claim_id :: oid
  claim_username :: string

record decoded =
  user :: claims
  iat :: nat
  exp :: nat

text \<open>
  The packages. \<open>bcrypt_hash\<close> and \<open>bcrypt_compare\<close> are bcryptjs on strings.
  \<open>jwt_sign payload secret expiresIn clock\<close> is the token; \<open>jwt_verify token secret clock\<close>
  is \<open>None\<close> when the callback gets an error. \<open>castObjectId s\<close> is the ObjectId mongoose
  casts the string \<open>s\<close> to, or the message of the CastError it throws for a string that
  is no ObjectId. \<open>validation_message model paths\<close> is the message of the ValidationError
  for the paths that failed, and \<open>duplicate_key_message collection\<close> the message of the
  driver's error E11000.
\<close>

record libs =
  bcrypt_hash :: "string \<Rightarrow> string \<Rightarrow> string"
  bcrypt_compare :: "string \<Rightarrow> string \<Rightarrow> bool"
  jwt_sign :: "claims \<Rightarrow> string \<Rightarrow> string \<Rightarrow> nat \<Rightarrow> string"
  jwt_verify :: "string \<Rightarrow> string \<Rightarrow> nat \<Rightarrow> decoded option"
  castObjectId :: "string \<Rightarrow> string + oid"
  validation_message :: "string \<Rightarrow> string list \<Rightarrow> string"
  duplicate_key_message :: "string \<Rightarrow> string"

definition JWT_SECRET :: string where
  "JWT_SECRET = ''your-jwt-secret-key''"

subsection \<open>Responses\<close>

datatype body =
    Message string
  | ServerError string string
  | Token string
  | ItemDoc item
  | ItemDocs "item list"

record response =
  status :: nat
  body :: body

text \<open>
  The \<open>catch\<close> block every handler ends with (lines 100-102, 127-129, 141-143, 159-161,
  182-184, 198-200): \<open>res.status(500).json({ message: 'Server error', error: err.message })\<close>.
\<close>

definition server_error :: "string \<Rightarrow> response" where
  "server_error m = \<lparr>status = 500, body = ServerError ''Server error'' m\<rparr>"

definition catch_500 :: "db \<Rightarrow> js_error + response \<times> db \<Rightarrow> response \<times> db" where
  "catch_500 d r =
     (case r of
        Inl err \<Rightarrow> (server_error (message err), d)
      | Inr x \<Rightarrow> x)"

subsection \<open>bcryptjs: the argument check\<close>

text \<open>
  \<open>bcrypt.hash(s, salt)\<close> and \<open>bcrypt.compare(s, hash)\<close> reject, with
  \<open>Error("Illegal arguments: " + typeof s + ", " + typeof hash)\<close>, an \<open>s\<close> that is not a
  string; the salt and the stored hash are strings here.
\<close>

fun typeof :: "string field \<Rightarrow> string" where
  "typeof Undefined = ''undefined''"
| "typeof Null = ''object''"
| "typeof (Val s) = ''string''"

definition bcryptjs_hash :: "libs \<Rightarrow> string field \<Rightarrow> string \<Rightarrow> js_error + string" where
  "bcryptjs_hash L s salt' =
     (case s of
        Val pw \<Rightarrow> Inr (bcrypt_hash L pw salt')
      | _ \<Rightarrow> Inl (Error (''Illegal arguments: '' @ typeof s @ '', string'')))"

definition bcryptjs_compare :: "libs \<Rightarrow> string field \<Rightarrow> string \<Rightarrow> js_error + bool" where
  "bcryptjs_compare L s hash' =
     (case s of
        Val pw \<Rightarrow> Inr (bcrypt_compare L pw hash')
      | _ \<Rightarrow> Inl (Error (''Illegal arguments: '' @ typeof s @ '', string'')))"

subsection \<open>Mongoose: validation and the storage calls\<close>

text \<open>
  A required String path rejects \<open>undefined\<close>, \<open>null\<close> and the empty string; a required
  Number path rejects \<open>undefined\<close> and \<open>null\<close>. Validation checks every path and throws
  one ValidationError that names all the paths that failed.
\<close>

fun required_string :: "string field \<Rightarrow> bool" where
  "required_string (Val s) = (s \<noteq> [])"
| "required_string _ = False"

fun required_number :: "int field \<Rightarrow> bool" where
  "required_number (Val n) = True"
| "required_number _ = False"

definition user_paths :: "string field \<Rightarrow> string \<Rightarrow> string list" where
  "user_paths uname hashed =
     (if required_string uname then [] else [''username'']) @
     (if hashed \<noteq> [] then [] else [''password''])"

definition item_paths :: "item \<Rightarrow> string list" where
  "item_paths it =
     (if required_string (name it) then [] else [''name'']) @
     (if required_number (quantity it) then [] else [''quantity''])"

definition validate_item :: "libs \<Rightarrow> item \<Rightarrow> js_error option" where
  "validate_item L it =
     (if item_paths it = [] then None
      else Some (ValidationError (validation_message L ''Item'' (item_paths it))))"

text \<open>
  \<open>User.findOne({ username })\<close>. A filter whose value is \<open>undefined\<close> or \<open>null\<close> matches
  the documents without a username, and no stored user is one.
\<close>

definition User_findOne :: "env \<Rightarrow> db \<Rightarrow> string field \<Rightarrow> js_error + user option" where
  "User_findOne e d uname =
     (case fault e OpUserFindOne of
        Some m \<Rightarrow> Inl (MongoError m)
      | None \<Rightarrow>
          (case uname of
             Val u \<Rightarrow> Inr (find (\<lambda>x. username x = u) (users d))
           | _ \<Rightarrow> Inr None))"

text \<open>
  \<open>new User({ username, password: hashedPassword })\<close> and \<open>user.save()\<close>: the constructor
  generates the id, \<open>save\<close> validates and then inserts, and the insert is refused by the
  unique indexes on \<open>_id\<close> and on \<open>username\<close> (\<open>unique: true\<close>).
\<close>

definition User_save :: "libs \<Rightarrow> env \<Rightarrow> db \<Rightarrow> string field \<Rightarrow> string \<Rightarrow> js_error + db" where
  "User_save L e d uname hashed =
     (if user_paths uname hashed \<noteq> []
      then Inl (ValidationError (validation_message L ''User'' (user_paths uname hashed)))
      else
        (case uname of
           Val u \<Rightarrow>
             (case fault e OpUserSave of
                Some m \<Rightarrow> Inl (MongoError m)
              | None \<Rightarrow>
                  if (\<exists>x \<in> set (users d). username x = u \<or> user_id x = new_id e)
                  then Inl (MongoError (duplicate_key_message L ''users''))
                  else Inr (d\<lparr>users := users d @
                              [\<lparr>user_id = new_id e, username = u, password = hashed\<rparr>]\<rparr>))
         | _ \<Rightarrow> Inl (ValidationError (validation_message L ''User'' [''username'']))))"

definition Item_find :: "env \<Rightarrow> db \<Rightarrow> js_error + item list" where
  "Item_find e d =
     (case fault e OpItemFind of
        Some m \<Rightarrow> Inl (MongoError m)
      | None \<Rightarrow> Inr (items d))"

text \<open>
  \<open>Item.findById(req.params.id)\<close>: the route parameter is cast to an ObjectId first, and
  a parameter that is no ObjectId throws a CastError; then the query runs and resolves to
  the stored document with that \<open>_id\<close>, or to \<open>null\<close>.
\<close>

definition Item_findById :: "libs \<Rightarrow> env \<Rightarrow> db \<Rightarrow> string \<Rightarrow> js_error + item option" where
  "Item_findById L e d i =
     (case castObjectId L i of
        Inl m \<Rightarrow> Inl (CastError m)
      | Inr k \<Rightarrow>
          (case fault e OpItemFindById of
             Some m \<Rightarrow> Inl (MongoError m)
           | None \<Rightarrow> Inr (find (\<lambda>x. item_id x = k) (items d))))"

text \<open>
  \<open>new Item({ name, quantity, description })\<close>: the constructor generates the id and
  applies the schema's defaults to the paths that are \<open>undefined\<close>.
\<close>

definition new_Item :: "env \<Rightarrow> string field \<Rightarrow> int field \<Rightarrow> string field \<Rightarrow> item" where
  "new_Item e nm q ds =
     \<lparr>item_id = new_id e,
      name = nm,
      quantity = (case q of Undefined \<Rightarrow> Val 0 | _ \<Rightarrow> q),
      description = ds,
      lastUpdated = now e\<rparr>"

text \<open>
  \<open>save\<close> on an item: validation, then an insert for a new document (\<open>isNew\<close>) and an
  update of the stored document with that \<open>_id\<close> otherwise. \<open>_id\<close> is the collection's
  primary key.
\<close>

definition Item_save :: "libs \<Rightarrow> env \<Rightarrow> bool \<Rightarrow> db \<Rightarrow> item \<Rightarrow> js_error + db" where
  "Item_save L e isNew d it =
     (case validate_item L it of
        Some err \<Rightarrow> Inl err
      | None \<Rightarrow>
          (case fault e OpItemSave of
             Some m \<Rightarrow> Inl (MongoError m)
           | None \<Rightarrow>
               if isNew then
                 (if (\<exists>x \<in> set (items d). item_id x = item_id it)
                  then Inl (MongoError (duplicate_key_message L ''items''))
                  else Inr (d\<lparr>items := items d @ [it]\<rparr>))
               else Inr (d\<lparr>items := map (\<lambda>x. if item_id x = item_id it then it else x) (items d)\<rparr>)))"

definition Item_deleteOne :: "env \<Rightarrow> db \<Rightarrow> item \<Rightarrow> js_error + db" where
  "Item_deleteOne e d it =
     (case fault e OpItemDeleteOne of
        Some m \<Rightarrow> Inl (MongoError m)
      | None \<Rightarrow> Inr (d\<lparr>items := filter (\<lambda>x. item_id x \<noteq> item_id it) (items d)\<rparr>))"

subsection \<open>The middleware authenticateToken (lines 59-74)\<close>

text \<open>JavaScript's \<open>s.split(' ')\<close>: the pieces between the separators, one piece for the empty string.\<close>

fun split :: "char \<Rightarrow> string \<Rightarrow> string list" where
  "split c [] = [[]]"
| "split c (x # xs) =
     (if x = c then [] # split c xs
      else (case split c xs of
              [] \<Rightarrow> [[x]]
            | w # ws \<Rightarrow> (x # w) # ws))"

text \<open>\<open>xs[i]\<close>: \<open>undefined\<close> past the end.\<close>

definition index :: "'a list \<Rightarrow> nat \<Rightarrow> 'a option" where
  "index xs i = (if i < length xs then Some (xs ! i) else None)"

text \<open>
  \<open>authHeader && authHeader.split(' ')[1]\<close>: a missing header gives \<open>undefined\<close>, the empty
  header (falsy) gives itself, any other header gives the second piece or \<open>undefined\<close>.
\<close>

definition extract_token :: "string option \<Rightarrow> string option" where
  "extract_token authHeader =
     (case authHeader of
        None \<Rightarrow> None
      | Some h \<Rightarrow> if h = [] then Some h else index (split CHR '' '' h) 1)"

definition authenticateToken :: "libs \<Rightarrow> env \<Rightarrow> string option \<Rightarrow> response + decoded" where
  "authenticateToken L e authHeader =
     (case extract_token authHeader of
        None \<Rightarrow> Inl \<lparr>status = 401, body = Message ''No token provided''\<rparr>
      | Some token \<Rightarrow>
          (case jwt_verify L token JWT_SECRET (now e) of
             None \<Rightarrow> Inl \<lparr>status = 403, body = Message ''Token is invalid''\<rparr>
           | Some u \<Rightarrow> Inr u))"

text \<open>
  \<open>app.get(path, authenticateToken, handler)\<close>: the handler runs only when the middleware
  calls \<open>next()\<close>, with \<open>req.user\<close> set.
\<close>

definition protected ::
  "libs \<Rightarrow> env \<Rightarrow> string option \<Rightarrow> (decoded \<Rightarrow> db \<Rightarrow> response \<times> db) \<Rightarrow> db \<Rightarrow> response \<times> db" where
  "protected L e authHeader handler d =
     (case authenticateToken L e authHeader of
        Inl r \<Rightarrow> (r, d)
      | Inr u \<Rightarrow> handler u d)"

subsection \<open>Auth routes\<close>

text \<open>
  POST /api/auth/register (lines 81-103). \<open>username\<close> and \<open>password\<close> are whatever the
  body holds; \<open>bcrypt.genSalt(10)\<close> is the salt of the environment.
\<close>

definition register_try ::
  "libs \<Rightarrow> env \<Rightarrow> string field \<Rightarrow> string field \<Rightarrow> db \<Rightarrow> js_error + response \<times> db" where
  "register_try L e uname pw d =
     (case User_findOne e d uname of
        Inl err \<Rightarrow> Inl err
      | Inr (Some u) \<Rightarrow> Inr (\<lparr>status = 400, body = Message ''User already exists''\<rparr>, d)
      | Inr None \<Rightarrow>
          (case bcryptjs_hash L pw (salt e) of
             Inl err \<Rightarrow> Inl err
           | Inr hashedPassword \<Rightarrow>
               (case User_save L e d uname hashedPassword of
                  Inl err \<Rightarrow> Inl err
                | Inr d' \<Rightarrow>
                    Inr (\<lparr>status = 201, body = Message ''User registered successfully''\<rparr>, d'))))"

definition register ::
  "libs \<Rightarrow> env \<Rightarrow> string field \<Rightarrow> string field \<Rightarrow> db \<Rightarrow> response \<times> db" where
  "register L e uname pw d = catch_500 d (register_try L e uname pw d)"

text \<open>POST /api/auth/login (lines 106-130).\<close>

definition login_try ::
  "libs \<Rightarrow> env \<Rightarrow> string field \<Rightarrow> string field \<Rightarrow> db \<Rightarrow> js_error + response \<times> db" where
  "login_try L e uname pw d =
     (case User_findOne e d uname of
        Inl err \<Rightarrow> Inl err
      | Inr None \<Rightarrow> Inr (\<lparr>status = 400, body = Message ''Invalid credentials''\<rparr>, d)
      | Inr (Some u) \<Rightarrow>
          (case bcryptjs_compare L pw (password u) of
             Inl err \<Rightarrow> Inl err
           | Inr isMatch \<Rightarrow>
               if \<not> isMatch
               then Inr (\<lparr>status = 400, body = Message ''Invalid credentials''\<rparr>, d)
               else
                 (let payload = \<lparr>claim_id = user_id u, claim_username = username u\<rparr>;
                      token = jwt_sign L payload JWT_SECRET ''1h'' (now e)
                  in Inr (\<lparr>status = 200, body = Token token\<rparr>, d))))"

definition login ::
  "libs \<Rightarrow> env \<Rightarrow> string field \<Rightarrow> string field \<Rightarrow> db \<Rightarrow> response \<times> db" where
  "login L e uname pw d = catch_500 d (login_try L e uname pw d)"

subsection \<open>Inventory routes\<close>

text \<open>GET /api/items (lines 137-144).\<close>

definition get_items_try :: "env \<Rightarrow> db \<Rightarrow> js_error + response \<times> db" where
  "get_items_try e d =
     (case Item_find e d of
        Inl err \<Rightarrow> Inl err
      | Inr its \<Rightarrow> Inr (\<lparr>status = 200, body = ItemDocs its\<rparr>, d))"

definition get_items :: "libs \<Rightarrow> env \<Rightarrow> string option \<Rightarrow> db \<Rightarrow> response \<times> db" where
  "get_items L e authHeader d =
     protected L e authHeader (\<lambda>u d. catch_500 d (get_items_try e d)) d"

text \<open>POST /api/items (lines 147-162).\<close>

definition post_item_try ::
  "libs \<Rightarrow> env \<Rightarrow> string field \<Rightarrow> int field \<Rightarrow> string field \<Rightarrow> db \<Rightarrow> js_error + response \<times> db" where
  "post_item_try L e nm q ds d =
     (let newItem = new_Item e nm q ds
      in case Item_save L e True d newItem of
           Inl err \<Rightarrow> Inl err
         | Inr d' \<Rightarrow> Inr (\<lparr>status = 201, body = ItemDoc newItem\<rparr>, d'))"

definition post_item ::
  "libs \<Rightarrow> env \<Rightarrow> string option \<Rightarrow> string field \<Rightarrow> int field \<Rightarrow> string field \<Rightarrow> db \<Rightarrow> response \<times> db" where
  "post_item L e authHeader nm q ds d =
     protected L e authHeader (\<lambda>u d. catch_500 d (post_item_try L e nm q ds d)) d"

text \<open>PUT /api/items/:id (lines 165-185). \<open>a || b\<close> is \<open>a\<close> when \<open>a\<close> is truthy and \<open>b\<close> otherwise.\<close>

fun truthy :: "string field \<Rightarrow> bool" where
  "truthy (Val s) = (s \<noteq> [])"
| "truthy _ = False"

definition js_or :: "string field \<Rightarrow> string field \<Rightarrow> string field" where
  "js_or a b = (if truthy a then a else b)"

text \<open>The four assignments under "Update fields" (lines 175-178).\<close>

definition update_fields :: "env \<Rightarrow> string field \<Rightarrow> int field \<Rightarrow> string field \<Rightarrow> item \<Rightarrow> item" where
  "update_fields e nm q ds it =
     it\<lparr>name := js_or nm (name it),
        quantity := (if q \<noteq> Undefined then q else quantity it),
        description := js_or ds (description it),
        lastUpdated := now e\<rparr>"

definition put_item_try ::
  "libs \<Rightarrow> env \<Rightarrow> string \<Rightarrow> string field \<Rightarrow> int field \<Rightarrow> string field \<Rightarrow> db \<Rightarrow> js_error + response \<times> db" where
  "put_item_try L e i nm q ds d =
     (case Item_findById L e d i of
        Inl err \<Rightarrow> Inl err
      | Inr None \<Rightarrow> Inr (\<lparr>status = 404, body = Message ''Item not found''\<rparr>, d)
      | Inr (Some it) \<Rightarrow>
          (let it' = update_fields e nm q ds it
           in case Item_save L e False d it' of
                Inl err \<Rightarrow> Inl err
              | Inr d' \<Rightarrow> Inr (\<lparr>status = 200, body = ItemDoc it'\<rparr>, d')))"

definition put_item ::
  "libs \<Rightarrow> env \<Rightarrow> string option \<Rightarrow> string \<Rightarrow> string field \<Rightarrow> int field \<Rightarrow> string field \<Rightarrow> db \<Rightarrow> response \<times> db" where
  "put_item L e authHeader i nm q ds d =
     protected L e authHeader (\<lambda>u d. catch_500 d (put_item_try L e i nm q ds d)) d"

text \<open>DELETE /api/items/:id (lines 188-201).\<close>

definition delete_item_try :: "libs \<Rightarrow> env \<Rightarrow> string \<Rightarrow> db \<Rightarrow> js_error + response \<times> db" where
  "delete_item_try L e i d =
     (case Item_findById L e d i of
        Inl err \<Rightarrow> Inl err
      | Inr None \<Rightarrow> Inr (\<lparr>status = 404, body = Message ''Item not found''\<rparr>, d)
      | Inr (Some it) \<Rightarrow>
          (case Item_deleteOne e d it of
             Inl err \<Rightarrow> Inl err
           | Inr d' \<Rightarrow> Inr (\<lparr>status = 200, body = Message ''Item removed successfully''\<rparr>, d')))"

definition delete_item :: "libs \<Rightarrow> env \<Rightarrow> string option \<Rightarrow> string \<Rightarrow> db \<Rightarrow> response \<times> db" where
  "delete_item L e authHeader i d =
     protected L e authHeader (\<lambda>u d. catch_500 d (delete_item_try L e i d)) d"

subsection \<open>The store's keys and its documents\<close>

text \<open>
  MongoDB keeps \<open>_id\<close> unique in a collection, and the index declared by
  \<open>unique: true\<close> keeps usernames unique. The handlers preserve both, so the documents
  "with that id" and "with that username" are at most one each in every reachable database.
  They also store no item that fails validation.
\<close>

definition unique_keys :: "db \<Rightarrow> bool" where
  "unique_keys d = (distinct (map item_id (items d)) \<and> distinct (map username (users d)))"

definition valid_item :: "item \<Rightarrow> bool" where
  "valid_item it = (required_string (name it) \<and> required_number (quantity it))"

subsection \<open>Library contracts and sample collaborators\<close>

text \<open>
  The contract of jsonwebtoken the login flow relies on, at one payload and two clock
  readings: the token signed for \<open>p\<close> at \<open>t\<close> verifies at \<open>t'\<close> and yields \<open>p\<close> back.
\<close>

definition jwt_roundtrip :: "libs \<Rightarrow> claims \<Rightarrow> nat \<Rightarrow> nat \<Rightarrow> bool" where
  "jwt_roundtrip L p t t' =
     (case jwt_verify L (jwt_sign L p JWT_SECRET ''1h'' t) JWT_SECRET t' of
        None \<Rightarrow> False
      | Some dec \<Rightarrow> user dec = p)"

text \<open>
  Small stand-ins for the packages, a quiet environment and a database with one user and
  two items, for the concrete instances below. The stand-in for the cast accepts the
  strings of 24 lower-case hexadecimal digits; the texts are the ones mongoose writes.
\<close>

fun join :: "string \<Rightarrow> string list \<Rightarrow> string" where
  "join sep [] = []"
| "join sep [x] = x"
| "join sep (x # y # ys) = x @ sep @ join sep (y # ys)"

definition is_hex24 :: "string \<Rightarrow> bool" where
  "is_hex24 s = (length s = 24 \<and> list_all (\<lambda>c. c \<in> set ''0123456789abcdef'') s)"

definition sample_libs :: libs where
  "sample_libs =
     \<lparr>bcrypt_hash = (\<lambda>pw s. s @ ''$'' @ pw),
      bcrypt_compare = (\<lambda>pw h. h = ''salt$'' @ pw),
      jwt_sign = (\<lambda>p secret ttl t. claim_username p @ ''.'' @ claim_id p),
      jwt_verify = (\<lambda>tok secret t.
         if tok = ''alice.64b7f00000000000000000b1'' \<and> secret = ''your-jwt-secret-key'' \<and> t < 3600000
         then Some \<lparr>user = \<lparr>claim_id = ''64b7f00000000000000000b1'', claim_username = ''alice''\<rparr>,
                    iat = 0, exp = 3600\<rparr>
         else None),
      castObjectId = (\<lambda>s.
         if is_hex24 s then Inr s
         else Inl (''Cast to ObjectId failed for value '' @ [CHR 0x22] @ s @ [CHR 0x22] @
                   '' (type string) at path '' @ [CHR 0x22] @ ''_id'' @ [CHR 0x22] @
                   '' for model '' @ [CHR 0x22] @ ''Item'' @ [CHR 0x22])),
      validation_message = (\<lambda>model paths.
         model @ '' validation failed: '' @
         join '', '' (map (\<lambda>p. p @ '': Path `'' @ p @ ''` is required.'') paths)),
      duplicate_key_message = (\<lambda>coll.
         ''E11000 duplicate key error collection: inventoryDB.'' @ coll)\<rparr>"

definition sample_env :: env where
  "sample_env = \<lparr>now = 1000, salt = ''salt'', new_id = ''64b7f00000000000000000a2'',
                 fault = (\<lambda>_. None)\<rparr>"

definition widget_id :: oid where
  "widget_id = ''64b7f00000000000000000a1''"

definition gizmo_id :: oid where
  "gizmo_id = ''64b7f00000000000000000a0''"

definition absent_id :: oid where
  "absent_id = ''64b7f00000000000000000a9''"

definition widget :: item where
  "widget = \<lparr>item_id = widget_id, name = Val ''Widget'', quantity = Val 5,
             description = Val ''blue'', lastUpdated = 10\<rparr>"

definition gizmo :: item where
  "gizmo = \<lparr>item_id = gizmo_id, name = Val ''Gizmo'', quantity = Val 2,
            description = Undefined, lastUpdated = 7\<rparr>"

definition sample_db :: db where
  "sample_db =
     \<lparr>users = [\<lparr>user_id = ''64b7f00000000000000000b0'', username = ''bob'',
                 password = ''salt$hunter2''\<rparr>],
      items = [gizmo, widget]\<rparr>"

text \<open>Environments in which storage calls throw: every call, and the writes only.\<close>

definition offline_env :: env where
  "offline_env = sample_env\<lparr>fault := (\<lambda>_. Some ''connect ECONNREFUSED 127.0.0.1:27017'')\<rparr>"

definition readonly_env :: env where
  "readonly_env =
     sample_env\<lparr>fault := (\<lambda>op. if op = OpUserSave \<or> op = OpItemSave \<or> op = OpItemDeleteOne
                                then Some ''not primary'' else None)\<rparr>"

definition sample_user :: decoded where
  "sample_user = \<lparr>user = \<lparr>claim_id = ''64b7f00000000000000000b1'', claim_username = ''alice''\<rparr>,
                  iat = 0, exp = 3600\<rparr>"

definition sample_auth :: "string option" where
  "sample_auth = Some ''Bearer alice.64b7f00000000000000000b1''"

section \<open>Properties\<close>

subsection \<open>Splitting the header\<close>

lemma split_no_sep: "c \<notin> set w \<Longrightarrow> split c w = [w]"
  by (induction w) auto

lemma split_first: "c \<notin> set w \<Longrightarrow> split c (w @ c # rest) = w # split c rest"
  by (induction w) auto

lemma extract_token_two_words:
  assumes "CHR '' '' \<notin> set w1" and "CHR '' '' \<notin> set w2"
  shows "extract_token (Some (w1 @ '' '' @ w2)) = Some w2"
proof -
  have "split CHR '' '' (w1 @ CHR '' '' # w2) = [w1, w2]"
    using assms by (simp add: split_first split_no_sep)
  then show ?thesis
    by (simp add: extract_token_def index_def)
qed

lemma extract_token_one_word:
  assumes "h \<noteq> []" and "CHR '' '' \<notin> set h"
  shows "extract_token (Some h) = None"
  using assms by (simp add: extract_token_def index_def split_no_sep)

subsection \<open>The gate in front of a handler\<close>

lemma protected_missing:
  "protected L e None handler d = (\<lparr>status = 401, body = Message ''No token provided''\<rparr>, d)"
  by (simp add: protected_def authenticateToken_def extract_token_def)

lemma protected_rejected:
  "extract_token h = Some t \<Longrightarrow> jwt_verify L t JWT_SECRET (now e) = None \<Longrightarrow>
   protected L e h handler d = (\<lparr>status = 403, body = Message ''Token is invalid''\<rparr>, d)"
  by (simp add: protected_def authenticateToken_def)

lemma protected_accepted:
  "authenticateToken L e h = Inr u \<Longrightarrow> protected L e h handler d = handler u d"
  by (simp add: protected_def)

lemma authenticate_accepted:
  "extract_token h = Some t \<Longrightarrow> jwt_verify L t JWT_SECRET (now e) = Some u \<Longrightarrow>
   authenticateToken L e h = Inr u"
  by (simp add: authenticateToken_def)

lemma sample_env_fields:
  "now sample_env = 1000" "salt sample_env = ''salt''"
  "new_id sample_env = ''64b7f00000000000000000a2''"
  "fault sample_env op = None"
  by (simp_all add: sample_env_def)

lemma sample_token:
  "extract_token (Some ''Bearer alice.64b7f00000000000000000b1'') = Some ''alice.64b7f00000000000000000b1''"
  by (simp add: extract_token_def index_def)

lemma sample_verify:
  "jwt_verify sample_libs ''alice.64b7f00000000000000000b1'' JWT_SECRET (now sample_env) = Some sample_user"
  by (simp add: sample_libs_def sample_env_def JWT_SECRET_def sample_user_def)

lemma sample_authenticated:
  "authenticateToken sample_libs sample_env sample_auth = Inr sample_user"
  unfolding sample_auth_def by (rule authenticate_accepted [OF sample_token sample_verify])

lemma sample_casts:
  "castObjectId sample_libs widget_id = Inr widget_id"
  "castObjectId sample_libs gizmo_id = Inr gizmo_id"
  "castObjectId sample_libs absent_id = Inr absent_id"
  by (simp_all add: sample_libs_def is_hex24_def widget_id_def gizmo_id_def absent_id_def)

lemma sample_cast_fails:
  "\<exists>m. castObjectId sample_libs ''i9'' = Inl m"
  by (simp add: sample_libs_def is_hex24_def)

lemma sample_ids:
  "item_id widget = widget_id" "item_id gizmo = gizmo_id" "gizmo_id \<noteq> widget_id"
  "absent_id \<noteq> widget_id" "absent_id \<noteq> gizmo_id" "new_id sample_env \<noteq> widget_id"
  "new_id sample_env \<noteq> gizmo_id" "items sample_db = [gizmo, widget]"
  by (simp_all add: widget_def gizmo_def widget_id_def gizmo_id_def absent_id_def sample_env_def
        sample_db_def)

text \<open>
  C1. Each of the four item routes answers 401 "No token provided" when the authorization
  header is missing, and 403 "Token is invalid" when a token is extracted from the header
  and \<open>jwt.verify\<close> rejects it (invalid or expired); in both cases the database is
  untouched. When \<open>jwt.verify\<close> accepts the token, the middleware hands the decoded
  claims on (\<open>req.user\<close>) and the route's handler runs.
\<close>

theorem auth_gate_on_item_routes:
  "(get_items L e None d = (\<lparr>status = 401, body = Message ''No token provided''\<rparr>, d) \<and>
    post_item L e None nm q ds d = (\<lparr>status = 401, body = Message ''No token provided''\<rparr>, d) \<and>
    put_item L e None i nm q ds d = (\<lparr>status = 401, body = Message ''No token provided''\<rparr>, d) \<and>
    delete_item L e None i d = (\<lparr>status = 401, body = Message ''No token provided''\<rparr>, d)) \<and>
   (extract_token h = Some t \<and> jwt_verify L t JWT_SECRET (now e) = None \<longrightarrow>
    get_items L e h d = (\<lparr>status = 403, body = Message ''Token is invalid''\<rparr>, d) \<and>
    post_item L e h nm q ds d = (\<lparr>status = 403, body = Message ''Token is invalid''\<rparr>, d) \<and>
    put_item L e h i nm q ds d = (\<lparr>status = 403, body = Message ''Token is invalid''\<rparr>, d) \<and>
    delete_item L e h i d = (\<lparr>status = 403, body = Message ''Token is invalid''\<rparr>, d)) \<and>
   (extract_token h = Some t \<and> jwt_verify L t JWT_SECRET (now e) = Some u \<longrightarrow>
    authenticateToken L e h = Inr u \<and>
    get_items L e h d = catch_500 d (get_items_try e d) \<and>
    post_item L e h nm q ds d = catch_500 d (post_item_try L e nm q ds d) \<and>
    put_item L e h i nm q ds d = catch_500 d (put_item_try L e i nm q ds d) \<and>
    delete_item L e h i d = catch_500 d (delete_item_try L e i d))"
proof (intro conjI impI)
  assume a: "extract_token h = Some t \<and> jwt_verify L t JWT_SECRET (now e) = Some u"
  then show au: "authenticateToken L e h = Inr u"
    by (simp add: authenticate_accepted)
  show "get_items L e h d = catch_500 d (get_items_try e d)"
    by (simp add: get_items_def protected_accepted [OF au])
  show "post_item L e h nm q ds d = catch_500 d (post_item_try L e nm q ds d)"
    by (simp add: post_item_def protected_accepted [OF au])
  show "put_item L e h i nm q ds d = catch_500 d (put_item_try L e i nm q ds d)"
    by (simp add: put_item_def protected_accepted [OF au])
  show "delete_item L e h i d = catch_500 d (delete_item_try L e i d)"
    by (simp add: delete_item_def protected_accepted [OF au])
qed (simp_all add: get_items_def post_item_def put_item_def delete_item_def
      protected_missing protected_rejected)

theorem auth_gate_on_item_routes_witness:
  "(extract_token (Some ''Bearer forged'') = Some ''forged'' \<and>
    jwt_verify sample_libs ''forged'' JWT_SECRET (now sample_env) = None) \<and>
   delete_item sample_libs sample_env (Some ''Bearer forged'') widget_id sample_db =
     (\<lparr>status = 403, body = Message ''Token is invalid''\<rparr>, sample_db) \<and>
   (extract_token (Some ''Bearer alice.64b7f00000000000000000b1'') = Some ''alice.64b7f00000000000000000b1'' \<and>
    jwt_verify sample_libs ''alice.64b7f00000000000000000b1'' JWT_SECRET (now sample_env) = Some sample_user) \<and>
   authenticateToken sample_libs sample_env (Some ''Bearer alice.64b7f00000000000000000b1'') = Inr sample_user \<and>
   get_items sample_libs sample_env (Some ''Bearer alice.64b7f00000000000000000b1'') sample_db =
     catch_500 sample_db (get_items_try sample_env sample_db)"
proof -
  have bad: "extract_token (Some ''Bearer forged'') = Some ''forged'' \<and>
             jwt_verify sample_libs ''forged'' JWT_SECRET (now sample_env) = None"
    by (simp add: extract_token_def index_def sample_libs_def)
  have good: "extract_token (Some ''Bearer alice.64b7f00000000000000000b1'') = Some ''alice.64b7f00000000000000000b1'' \<and>
              jwt_verify sample_libs ''alice.64b7f00000000000000000b1'' JWT_SECRET (now sample_env) = Some sample_user"
    by (simp add: sample_token sample_verify)
  from bad good
    auth_gate_on_item_routes [of sample_libs sample_env sample_db _ _ _ _
      "Some ''Bearer forged''" "''forged''" _]
    auth_gate_on_item_routes [of sample_libs sample_env sample_db _ _ _ _
      "Some ''Bearer alice.64b7f00000000000000000b1''" "''alice.64b7f00000000000000000b1''" sample_user]
  show ?thesis by blast
qed

text \<open>
  C9 (as amended). The middleware never looks at the first word of the header: a header of
  two words separated by one space, whose second word \<open>jwt.verify\<close> accepts, is let
  through whatever the first word is. A non-empty header without a space has no second
  piece and is answered 401 like a missing header.
\<close>

theorem gate_ignores_scheme_word:
  "(CHR '' '' \<notin> set w1 \<and> CHR '' '' \<notin> set w2 \<and> jwt_verify L w2 JWT_SECRET (now e) = Some u \<longrightarrow>
      authenticateToken L e (Some (w1 @ '' '' @ w2)) = Inr u \<and>
      protected L e (Some (w1 @ '' '' @ w2)) handler d = handler u d) \<and>
   (h \<noteq> [] \<and> CHR '' '' \<notin> set h \<longrightarrow>
      authenticateToken L e (Some h) = Inl \<lparr>status = 401, body = Message ''No token provided''\<rparr> \<and>
      protected L e (Some h) handler d = (\<lparr>status = 401, body = Message ''No token provided''\<rparr>, d))"
proof (intro conjI impI)
  assume a: "CHR '' '' \<notin> set w1 \<and> CHR '' '' \<notin> set w2 \<and> jwt_verify L w2 JWT_SECRET (now e) = Some u"
  then have tok: "extract_token (Some (w1 @ '' '' @ w2)) = Some w2"
    using extract_token_two_words [of w1 w2] by blast
  with a show au: "authenticateToken L e (Some (w1 @ '' '' @ w2)) = Inr u"
    by (simp add: authenticate_accepted)
  then show "protected L e (Some (w1 @ '' '' @ w2)) handler d = handler u d"
    by (rule protected_accepted)
next
  assume b: "h \<noteq> [] \<and> CHR '' '' \<notin> set h"
  then have tok: "extract_token (Some h) = None"
    by (simp add: extract_token_one_word)
  then show "authenticateToken L e (Some h) = Inl \<lparr>status = 401, body = Message ''No token provided''\<rparr>"
    by (simp add: authenticateToken_def)
  then show "protected L e (Some h) handler d = (\<lparr>status = 401, body = Message ''No token provided''\<rparr>, d)"
    by (simp add: protected_def)
qed

theorem gate_ignores_scheme_word_witness:
  "(CHR '' '' \<notin> set ''Basic'' \<and> CHR '' '' \<notin> set ''alice.64b7f00000000000000000b1'' \<and>
    jwt_verify sample_libs ''alice.64b7f00000000000000000b1'' JWT_SECRET (now sample_env) = Some sample_user) \<and>
   authenticateToken sample_libs sample_env (Some ''Basic alice.64b7f00000000000000000b1'') = Inr sample_user \<and>
   (''alice.64b7f00000000000000000b1'' \<noteq> [] \<and> CHR '' '' \<notin> set ''alice.64b7f00000000000000000b1'') \<and>
   authenticateToken sample_libs sample_env (Some ''alice.64b7f00000000000000000b1'') =
     Inl \<lparr>status = 401, body = Message ''No token provided''\<rparr>"
proof -
  have two: "CHR '' '' \<notin> set ''Basic'' \<and> CHR '' '' \<notin> set ''alice.64b7f00000000000000000b1'' \<and>
             jwt_verify sample_libs ''alice.64b7f00000000000000000b1'' JWT_SECRET (now sample_env) = Some sample_user"
    by (simp add: sample_verify)
  have one: "''alice.64b7f00000000000000000b1'' \<noteq> [] \<and> CHR '' '' \<notin> set ''alice.64b7f00000000000000000b1''"
    by simp
  from two one
    gate_ignores_scheme_word [of "''Basic''" "''alice.64b7f00000000000000000b1''" sample_libs sample_env sample_user _ _ "''alice.64b7f00000000000000000b1''"]
  show ?thesis by simp
qed

text \<open>
  The claim as first stated fails at the empty header. It has no space character, but it
  is falsy, so \<open>authHeader && ...\<close> is the empty string itself: that is the token handed
  to \<open>jwt.verify\<close>. Whatever \<open>jwt.verify\<close> does with it, the answer is not 401; with a
  verifier that rejects the empty string, as jsonwebtoken does ("jwt must be provided"),
  it is 403.
\<close>

lemma empty_header_reaches_verify:
  "authenticateToken L e (Some []) =
     (case jwt_verify L [] JWT_SECRET (now e) of
        None \<Rightarrow> Inl \<lparr>status = 403, body = Message ''Token is invalid''\<rparr>
      | Some u \<Rightarrow> Inr u)"
  by (simp add: authenticateToken_def extract_token_def)

theorem empty_header_counterexample:
  "CHR '' '' \<notin> set [] \<and>
   authenticateToken sample_libs sample_env (Some []) \<noteq>
     Inl \<lparr>status = 401, body = Message ''No token provided''\<rparr> \<and>
   authenticateToken sample_libs sample_env (Some []) =
     Inl \<lparr>status = 403, body = Message ''Token is invalid''\<rparr>"
  by (simp add: authenticateToken_def extract_token_def sample_libs_def)

subsection \<open>Registration and login\<close>

lemma find_username_None:
  "(find (\<lambda>x. username x = u) xs = None) = (u \<notin> username ` set xs)"
  by (auto simp: find_None_iff)

lemma register_existing:
  assumes "fault e OpUserFindOne = None" and "u \<in> username ` set (users d)"
  shows "register L e (Val u) p d = (\<lparr>status = 400, body = Message ''User already exists''\<rparr>, d)"
proof -
  from assms(2) obtain usr where "find (\<lambda>x. username x = u) (users d) = Some usr"
    using find_username_None [of u "users d"] by (cases "find (\<lambda>x. username x = u) (users d)") auto
  with assms(1) show ?thesis
    by (simp add: register_def register_try_def User_findOne_def catch_500_def)
qed

lemma User_save_stored:
  assumes "User_save L e d uname hashed = Inr d'"
  shows "\<exists>u. uname = Val u \<and>
           d' = d\<lparr>users := users d @ [\<lparr>user_id = new_id e, username = u, password = hashed\<rparr>]\<rparr>"
proof (cases uname)
  case (Val u)
  with assms show ?thesis
    by (simp add: User_save_def split: if_splits option.splits)
qed (use assms in \<open>simp_all add: User_save_def split: if_splits\<close>)

lemma register_created:
  assumes "register L e uname pw d = (r, d')" and "status r = 201"
  shows "\<exists>u hashed. uname = Val u \<and>
           d' = d\<lparr>users := users d @ [\<lparr>user_id = new_id e, username = u, password = hashed\<rparr>]\<rparr>"
proof (cases "register_try L e uname pw d")
  case (Inl err)
  with assms(1) have "r = server_error (message err)"
    by (simp add: register_def catch_500_def)
  with assms(2) show ?thesis
    by (simp add: server_error_def)
next
  case (Inr x)
  with assms(1) have t: "register_try L e uname pw d = Inr (r, d')"
    by (simp add: register_def catch_500_def)
  show ?thesis
  proof (cases "User_findOne e d uname")
    case (Inl err)
    with t show ?thesis by (simp add: register_try_def)
  next
    case found: (Inr found)
    show ?thesis
    proof (cases found)
      case (Some usr)
      with found t have "r = \<lparr>status = 400, body = Message ''User already exists''\<rparr>"
        by (simp add: register_try_def)
      with assms(2) show ?thesis by simp
    next
      case None
      show ?thesis
      proof (cases "bcryptjs_hash L pw (salt e)")
        case (Inl err)
        with found None t show ?thesis by (simp add: register_try_def)
      next
        case hashed: (Inr hashed)
        show ?thesis
        proof (cases "User_save L e d uname hashed")
          case (Inl err)
          with found None hashed t show ?thesis by (simp add: register_try_def)
        next
          case (Inr d'')
          with found None hashed t have "d' = d''"
            by (simp add: register_try_def)
          with User_save_stored [OF Inr] show ?thesis by blast
        qed
      qed
    qed
  qed
qed

lemma register_fresh:
  assumes "u \<noteq> []" and "bcrypt_hash L p (salt e) \<noteq> []"
    and "\<forall>x \<in> set (users d). username x \<noteq> u \<and> user_id x \<noteq> new_id e"
    and "fault e OpUserFindOne = None" and "fault e OpUserSave = None"
  shows "register L e (Val u) (Val p) d =
           (\<lparr>status = 201, body = Message ''User registered successfully''\<rparr>,
            d\<lparr>users := users d @ [\<lparr>user_id = new_id e, username = u,
                                   password = bcrypt_hash L p (salt e)\<rparr>]\<rparr>)"
proof -
  from assms(3) have "find (\<lambda>x. username x = u) (users d) = None"
    by (auto simp: find_None_iff)
  with assms show ?thesis
    by (auto simp: register_def register_try_def User_findOne_def User_save_def user_paths_def
                   bcryptjs_hash_def catch_500_def)
qed

lemma find_appended:
  "find P xs = None \<Longrightarrow> P y \<Longrightarrow> find P (xs @ [y]) = Some y"
  by (induction xs) (auto split: if_splits)

lemma login_token:
  assumes "fault e OpUserFindOne = None"
    and "find (\<lambda>x. username x = u) (users d) = Some usr"
    and "bcrypt_compare L p (password usr)"
  shows "login L e (Val u) (Val p) d =
           (\<lparr>status = 200,
             body = Token (jwt_sign L \<lparr>claim_id = user_id usr, claim_username = username usr\<rparr>
                             JWT_SECRET ''1h'' (now e))\<rparr>, d)"
  using assms
  by (simp add: login_def login_try_def User_findOne_def bcryptjs_compare_def catch_500_def Let_def)

lemma login_unknown_user:
  assumes "fault e OpUserFindOne = None" and "\<forall>u. uname = Val u \<longrightarrow> u \<notin> username ` set (users d)"
  shows "login L e uname pw d = (\<lparr>status = 400, body = Message ''Invalid credentials''\<rparr>, d)"
proof (cases uname)
  case (Val u)
  with assms(2) have "find (\<lambda>x. username x = u) (users d) = None"
    by (simp add: find_username_None)
  with Val assms(1) show ?thesis
    by (simp add: login_def login_try_def User_findOne_def catch_500_def)
qed (use assms(1) in \<open>simp_all add: login_def login_try_def User_findOne_def catch_500_def\<close>)

lemma login_wrong_password:
  assumes "fault e OpUserFindOne = None"
    and "find (\<lambda>x. username x = u) (users d) = Some usr"
    and "\<not> bcrypt_compare L p (password usr)"
  shows "login L e (Val u) (Val p) d = (\<lparr>status = 400, body = Message ''Invalid credentials''\<rparr>, d)"
  using assms
  by (simp add: login_def login_try_def User_findOne_def bcryptjs_compare_def catch_500_def)

text \<open>
  With a password that is a string, the two failures of login are answered alike.
\<close>

lemma login_failures_alike_for_string_passwords:
  assumes "fault e1 OpUserFindOne = None" and "fault e2 OpUserFindOne = None"
    and "u1 \<notin> username ` set (users d1)"
    and "find (\<lambda>x. username x = u2) (users d2) = Some usr"
    and "\<not> bcrypt_compare L p2 (password usr)"
  shows "fst (login L e1 (Val u1) p1 d1) = fst (login L e2 (Val u2) (Val p2) d2)"
proof -
  have "login L e1 (Val u1) p1 d1 = (\<lparr>status = 400, body = Message ''Invalid credentials''\<rparr>, d1)"
    using assms(1,3) by (simp add: login_unknown_user)
  moreover have "login L e2 (Val u2) (Val p2) d2 = (\<lparr>status = 400, body = Message ''Invalid credentials''\<rparr>, d2)"
    using assms(2,4,5) by (rule login_wrong_password)
  ultimately show ?thesis by simp
qed

text \<open>
  With a password that is absent or \<open>null\<close> they are not: \<open>bcrypt.compare\<close> is reached
  only for a stored username, rejects its argument, and the catch block answers 500.
\<close>

lemma login_stored_user_without_password:
  assumes "fault e OpUserFindOne = None"
    and "find (\<lambda>x. username x = u) (users d) = Some usr"
    and "pw = Undefined \<or> pw = Null"
  shows "login L e (Val u) pw d = (server_error (''Illegal arguments: '' @ typeof pw @ '', string''), d)"
  using assms
  by (auto simp: login_def login_try_def User_findOne_def bcryptjs_compare_def catch_500_def)

text \<open>
  C4. The claim is what the handler sets out to do (both failure branches send the same
  400 "Invalid credentials"), and the code misses a case: a login request without a
  password is answered 500 "Server error" when the username is stored and 400
  "Invalid credentials" when it is not, so the response tells the two apart.
\<close>

theorem login_without_password_reveals_user:
  "login sample_libs sample_env (Val ''bob'') Undefined sample_db =
     (\<lparr>status = 500, body = ServerError ''Server error'' ''Illegal arguments: undefined, string''\<rparr>,
      sample_db) \<and>
   login sample_libs sample_env (Val ''carol'') Undefined sample_db =
     (\<lparr>status = 400, body = Message ''Invalid credentials''\<rparr>, sample_db) \<and>
   fst (login sample_libs sample_env (Val ''bob'') Undefined sample_db) \<noteq>
   fst (login sample_libs sample_env (Val ''carol'') Undefined sample_db)"
proof -
  have quiet: "fault sample_env OpUserFindOne = None"
    by (simp add: sample_env_fields)
  have bob: "find (\<lambda>x. username x = ''bob'') (users sample_db) =
      Some \<lparr>user_id = ''64b7f00000000000000000b0'', username = ''bob'', password = ''salt$hunter2''\<rparr>"
    by (simp add: sample_db_def)
  have carol: "\<forall>u. (Val ''carol'' :: string field) = Val u \<longrightarrow> u \<notin> username ` set (users sample_db)"
    by (simp add: sample_db_def)
  have a: "login sample_libs sample_env (Val ''bob'') Undefined sample_db =
     (\<lparr>status = 500, body = ServerError ''Server error'' ''Illegal arguments: undefined, string''\<rparr>,
      sample_db)"
    using login_stored_user_without_password [OF quiet bob, of Undefined sample_libs]
    by (simp add: server_error_def)
  have b: "login sample_libs sample_env (Val ''carol'') Undefined sample_db =
     (\<lparr>status = 400, body = Message ''Invalid credentials''\<rparr>, sample_db)"
    using login_unknown_user [OF quiet carol] by simp
  from a b show ?thesis by simp
qed

text \<open>
  C3. Take a username and password that pass the schema (the username and the hash are
  not empty), a database with no user of that name, and storage calls that do not throw.
  Registering answers 201, and logging in afterwards with the same pair answers 200 with
  a token. Given bcryptjs's contract (a password compares equal to its own hash) and
  jsonwebtoken's (a signed token verifies and yields its payload) at the values of this
  run, \<open>jwt.verify\<close> accepts the token and the claims carry the username.
\<close>

theorem register_then_login_token:
  assumes "u \<noteq> []" and "bcrypt_hash L p (salt e1) \<noteq> []"
    and "\<forall>x \<in> set (users d). username x \<noteq> u \<and> user_id x \<noteq> new_id e1"
    and "fault e1 OpUserFindOne = None" and "fault e1 OpUserSave = None"
    and "fault e2 OpUserFindOne = None"
    and "bcrypt_compare L p (bcrypt_hash L p (salt e1))"
    and "jwt_roundtrip L \<lparr>claim_id = new_id e1, claim_username = u\<rparr> (now e2) t"
  shows "\<exists>d1 tok dec.
           register L e1 (Val u) (Val p) d =
             (\<lparr>status = 201, body = Message ''User registered successfully''\<rparr>, d1) \<and>
           login L e2 (Val u) (Val p) d1 = (\<lparr>status = 200, body = Token tok\<rparr>, d1) \<and>
           jwt_verify L tok JWT_SECRET t = Some dec \<and>
           claim_username (user dec) = u"
proof -
  define usr where "usr = \<lparr>user_id = new_id e1, username = u, password = bcrypt_hash L p (salt e1)\<rparr>"
  define d1 where "d1 = d\<lparr>users := users d @ [usr]\<rparr>"
  define tok where "tok = jwt_sign L \<lparr>claim_id = new_id e1, claim_username = u\<rparr> JWT_SECRET ''1h'' (now e2)"
  have reg: "register L e1 (Val u) (Val p) d =
      (\<lparr>status = 201, body = Message ''User registered successfully''\<rparr>, d1)"
    using assms(1-5) by (simp add: register_fresh d1_def usr_def)
  have "find (\<lambda>x. username x = u) (users d) = None"
    using assms(3) by (auto simp: find_None_iff)
  then have found: "find (\<lambda>x. username x = u) (users d1) = Some usr"
    by (simp add: d1_def find_appended usr_def)
  have log: "login L e2 (Val u) (Val p) d1 = (\<lparr>status = 200, body = Token tok\<rparr>, d1)"
    using login_token [OF assms(6) found] assms(7) by (simp add: usr_def tok_def)
  from assms(8) obtain dec where
    "jwt_verify L tok JWT_SECRET t = Some dec" and "user dec = \<lparr>claim_id = new_id e1, claim_username = u\<rparr>"
    by (auto simp: jwt_roundtrip_def tok_def split: option.splits)
  then have "jwt_verify L tok JWT_SECRET t = Some dec \<and> claim_username (user dec) = u"
    by simp
  with reg log show ?thesis by blast
qed

theorem register_then_login_token_witness:
  "\<exists>d1 tok dec.
     register sample_libs (sample_env\<lparr>new_id := ''64b7f00000000000000000b1''\<rparr>)
         (Val ''alice'') (Val ''pw'') sample_db =
       (\<lparr>status = 201, body = Message ''User registered successfully''\<rparr>, d1) \<and>
     login sample_libs sample_env (Val ''alice'') (Val ''pw'') d1 =
       (\<lparr>status = 200, body = Token tok\<rparr>, d1) \<and>
     jwt_verify sample_libs tok JWT_SECRET 2000 = Some dec \<and>
     claim_username (user dec) = ''alice''"
  by (rule register_then_login_token)
     (simp_all add: sample_libs_def sample_env_def sample_db_def jwt_roundtrip_def JWT_SECRET_def)

text \<open>
  C7. When the user lookup does not throw, registering a username that is already stored
  answers 400 "User already exists" and the database is unchanged: no second record is
  written. So after a registration that answered 201, registering the same username again
  (with any password) answers 400 and adds nothing.
\<close>

theorem register_duplicate_user:
  "(fault e OpUserFindOne = None \<and> u \<in> username ` set (users d) \<longrightarrow>
      register L e (Val u) p d = (\<lparr>status = 400, body = Message ''User already exists''\<rparr>, d)) \<and>
   (register L e1 (Val u) p1 d = (r1, d1) \<and> status r1 = 201 \<and> fault e2 OpUserFindOne = None \<longrightarrow>
      register L e2 (Val u) p2 d1 = (\<lparr>status = 400, body = Message ''User already exists''\<rparr>, d1))"
proof (intro conjI impI)
  assume "fault e OpUserFindOne = None \<and> u \<in> username ` set (users d)"
  then show "register L e (Val u) p d = (\<lparr>status = 400, body = Message ''User already exists''\<rparr>, d)"
    by (simp add: register_existing)
next
  assume a: "register L e1 (Val u) p1 d = (r1, d1) \<and> status r1 = 201 \<and> fault e2 OpUserFindOne = None"
  then obtain hashed where
    "d1 = d\<lparr>users := users d @ [\<lparr>user_id = new_id e1, username = u, password = hashed\<rparr>]\<rparr>"
    using register_created [of L e1 "Val u" p1 d r1 d1] by auto
  then have "u \<in> username ` set (users d1)"
    by simp
  with a show "register L e2 (Val u) p2 d1 = (\<lparr>status = 400, body = Message ''User already exists''\<rparr>, d1)"
    by (simp add: register_existing)
qed

theorem register_duplicate_user_witness:
  "register sample_libs sample_env (Val ''bob'') (Val ''other'') sample_db =
     (\<lparr>status = 400, body = Message ''User already exists''\<rparr>, sample_db) \<and>
   status (fst (register sample_libs sample_env (Val ''alice'') (Val ''pw'') sample_db)) = 201 \<and>
   register sample_libs sample_env (Val ''alice'') (Val ''pw2'')
       (snd (register sample_libs sample_env (Val ''alice'') (Val ''pw'') sample_db)) =
     (\<lparr>status = 400, body = Message ''User already exists''\<rparr>,
      snd (register sample_libs sample_env (Val ''alice'') (Val ''pw'') sample_db))"
proof -
  have first: "fault sample_env OpUserFindOne = None \<and> ''bob'' \<in> username ` set (users sample_db)"
    by (simp add: sample_env_def sample_db_def)
  have ok: "status (fst (register sample_libs sample_env (Val ''alice'') (Val ''pw'') sample_db)) = 201"
    by (simp add: register_def register_try_def User_findOne_def User_save_def user_paths_def
                  bcryptjs_hash_def catch_500_def server_error_def sample_libs_def sample_env_def
                  sample_db_def)
  from first ok
    register_duplicate_user [where e = sample_env and u = "''bob''" and d = sample_db
      and L = sample_libs and p = "Val ''other''"]
    register_duplicate_user [where u = "''alice''" and d = sample_db and L = sample_libs
      and ?e1.0 = sample_env and ?p1.0 = "Val ''pw''" and ?e2.0 = sample_env and ?p2.0 = "Val ''pw2''"
      and ?r1.0 = "fst (register sample_libs sample_env (Val ''alice'') (Val ''pw'') sample_db)"
      and ?d1.0 = "snd (register sample_libs sample_env (Val ''alice'') (Val ''pw'') sample_db)"]
  show ?thesis by (simp add: sample_env_def)
qed

subsection \<open>Item routes\<close>

lemma find_item_None:
  "(find (\<lambda>x. item_id x = i) xs = None) = (i \<notin> item_id ` set xs)"
  by (auto simp: find_None_iff)

lemma find_item_Some:
  "find (\<lambda>x. item_id x = i) xs = Some it \<Longrightarrow> item_id it = i \<and> it \<in> set xs"
  by (auto simp: find_Some_iff)

lemma find_item_in:
  "i \<in> item_id ` set xs \<Longrightarrow> \<exists>it. find (\<lambda>x. item_id x = i) xs = Some it"
  using find_item_None [of i xs] by (cases "find (\<lambda>x. item_id x = i) xs") auto

lemma find_replaced:
  "find (\<lambda>x. item_id x = i) xs = Some old \<Longrightarrow> item_id new = i \<Longrightarrow>
   find (\<lambda>x. item_id x = i) (map (\<lambda>x. if item_id x = i then new else x) xs) = Some new"
  by (induction xs) (auto split: if_splits)

lemma authenticate_refusals:
  "authenticateToken L e h = Inl r \<Longrightarrow> status r = 401 \<or> status r = 403"
  by (auto simp: authenticateToken_def split: option.splits)

lemma update_fields_id: "item_id (update_fields e nm q ds it) = item_id it"
  by (simp add: update_fields_def)

lemma catch_500_ok:
  "catch_500 d x = (r, d') \<Longrightarrow> status r \<noteq> 500 \<Longrightarrow> x = Inr (r, d')"
  by (cases x) (auto simp: catch_500_def server_error_def)

lemma protected_ok:
  assumes "protected L e h handler d = (r, d')" and "status r \<noteq> 401" and "status r \<noteq> 403"
  shows "\<exists>u. authenticateToken L e h = Inr u \<and> handler u d = (r, d')"
proof (cases "authenticateToken L e h")
  case (Inl a)
  with assms(1) have "a = r" by (simp add: protected_def)
  with authenticate_refusals [OF Inl] assms(2,3) show ?thesis by simp
next
  case (Inr u)
  with assms(1) show ?thesis by (simp add: protected_def)
qed

lemma Item_save_update:
  "Item_save L e False d it = Inr d' \<Longrightarrow>
   d' = d\<lparr>items := map (\<lambda>x. if item_id x = item_id it then it else x) (items d)\<rparr>"
  by (simp add: Item_save_def split: option.splits)

lemma Item_findById_found:
  assumes "Item_findById L e d i = Inr found"
  shows "\<exists>k. castObjectId L i = Inr k \<and> fault e OpItemFindById = None \<and>
           found = find (\<lambda>x. item_id x = k) (items d)"
proof (cases "castObjectId L i")
  case (Inl m)
  with assms show ?thesis by (simp add: Item_findById_def)
next
  case (Inr k)
  with assms show ?thesis
    by (cases "fault e OpItemFindById") (auto simp: Item_findById_def)
qed

lemma Item_findById_cast:
  "castObjectId L i = Inr k \<Longrightarrow> fault e OpItemFindById = None \<Longrightarrow>
   Item_findById L e d i = Inr (find (\<lambda>x. item_id x = k) (items d))"
  by (simp add: Item_findById_def)

lemma put_item_try_ok:
  assumes "put_item_try L e i nm q ds d = Inr (r, d')" and "status r = 200"
  shows "\<exists>k old. castObjectId L i = Inr k \<and>
           find (\<lambda>x. item_id x = k) (items d) = Some old \<and>
           r = \<lparr>status = 200, body = ItemDoc (update_fields e nm q ds old)\<rparr> \<and>
           d' = d\<lparr>items := map (\<lambda>x. if item_id x = k then update_fields e nm q ds old else x) (items d)\<rparr>"
proof (cases "Item_findById L e d i")
  case (Inl err)
  with assms(1) show ?thesis
    by (simp add: put_item_try_def)
next
  case (Inr found)
  from Item_findById_found [OF Inr] obtain k where
    k: "castObjectId L i = Inr k" and found: "found = find (\<lambda>x. item_id x = k) (items d)"
    by blast
  show ?thesis
  proof (cases found)
    case None
    with Inr assms(1) have "r = \<lparr>status = 404, body = Message ''Item not found''\<rparr>"
      by (simp add: put_item_try_def)
    with assms(2) show ?thesis
      by simp
  next
    case (Some old)
    with found have old: "find (\<lambda>x. item_id x = k) (items d) = Some old"
      by simp
    then have idn: "item_id (update_fields e nm q ds old) = k"
      using find_item_Some [of k "items d" old] by (simp add: update_fields_id)
    show ?thesis
    proof (cases "Item_save L e False d (update_fields e nm q ds old)")
      case (Inl err)
      with Inr Some assms(1) show ?thesis
        by (simp add: put_item_try_def)
    next
      case saved: (Inr d'')
      with Inr Some assms(1)
      have "r = \<lparr>status = 200, body = ItemDoc (update_fields e nm q ds old)\<rparr>" and "d' = d''"
        by (simp_all add: put_item_try_def)
      with Item_save_update [OF saved] idn old k show ?thesis
        by simp
    qed
  qed
qed

lemma put_item_ok:
  assumes "put_item L e h i nm q ds d = (r, d')" and "status r = 200"
  shows "\<exists>k old. castObjectId L i = Inr k \<and>
           find (\<lambda>x. item_id x = k) (items d) = Some old \<and>
           r = \<lparr>status = 200, body = ItemDoc (update_fields e nm q ds old)\<rparr> \<and>
           d' = d\<lparr>items := map (\<lambda>x. if item_id x = k then update_fields e nm q ds old else x) (items d)\<rparr>"
proof -
  from assms have "catch_500 d (put_item_try L e i nm q ds d) = (r, d')"
    using protected_ok [of L e h "\<lambda>u d. catch_500 d (put_item_try L e i nm q ds d)" d r d']
    by (auto simp: put_item_def)
  with assms(2) have "put_item_try L e i nm q ds d = Inr (r, d')"
    by (simp add: catch_500_ok)
  from this assms(2) show ?thesis
    by (rule put_item_try_ok)
qed

lemma delete_item_try_ok:
  assumes "delete_item_try L e i d = Inr (r, d')" and "status r = 200"
  shows "\<exists>k. castObjectId L i = Inr k \<and>
           d' = d\<lparr>items := filter (\<lambda>x. item_id x \<noteq> k) (items d)\<rparr>"
proof (cases "Item_findById L e d i")
  case (Inl err)
  with assms(1) show ?thesis
    by (simp add: delete_item_try_def)
next
  case (Inr found)
  from Item_findById_found [OF Inr] obtain k where
    k: "castObjectId L i = Inr k" and found: "found = find (\<lambda>x. item_id x = k) (items d)"
    by blast
  show ?thesis
  proof (cases found)
    case None
    with Inr assms(1) have "r = \<lparr>status = 404, body = Message ''Item not found''\<rparr>"
      by (simp add: delete_item_try_def)
    with assms(2) show ?thesis
      by simp
  next
    case (Some old)
    with found have "item_id old = k"
      using find_item_Some [of k "items d" old] by simp
    with Inr Some assms(1) k show ?thesis
      by (simp add: delete_item_try_def Item_deleteOne_def split: option.splits)
  qed
qed

lemma delete_item_ok:
  assumes "delete_item L e h i d = (r, d')" and "status r = 200"
  shows "\<exists>k. castObjectId L i = Inr k \<and>
           d' = d\<lparr>items := filter (\<lambda>x. item_id x \<noteq> k) (items d)\<rparr>"
proof -
  from assms have "catch_500 d (delete_item_try L e i d) = (r, d')"
    using protected_ok [of L e h "\<lambda>u d. catch_500 d (delete_item_try L e i d)" d r d']
    by (auto simp: delete_item_def)
  with assms(2) have "delete_item_try L e i d = Inr (r, d')"
    by (simp add: catch_500_ok)
  from this assms(2) show ?thesis
    by (rule delete_item_try_ok)
qed

lemma not_found_put:
  assumes "authenticateToken L e h = Inr u" and "castObjectId L i = Inr k"
    and "fault e OpItemFindById = None" and "k \<notin> item_id ` set (items d)"
  shows "put_item L e h i nm q ds d = (\<lparr>status = 404, body = Message ''Item not found''\<rparr>, d)"
  using assms find_item_None [of k "items d"]
  by (simp add: put_item_def protected_def catch_500_def put_item_try_def Item_findById_def)

lemma not_found_delete:
  assumes "authenticateToken L e h = Inr u" and "castObjectId L i = Inr k"
    and "fault e OpItemFindById = None" and "k \<notin> item_id ` set (items d)"
  shows "delete_item L e h i d = (\<lparr>status = 404, body = Message ''Item not found''\<rparr>, d)"
  using assms find_item_None [of k "items d"]
  by (simp add: delete_item_def protected_def catch_500_def delete_item_try_def Item_findById_def)

lemma cast_error_put:
  assumes "authenticateToken L e h = Inr u" and "castObjectId L i = Inl m"
  shows "put_item L e h i nm q ds d = (server_error m, d)"
  using assms
  by (simp add: put_item_def protected_def catch_500_def put_item_try_def Item_findById_def)

lemma cast_error_delete:
  assumes "authenticateToken L e h = Inr u" and "castObjectId L i = Inl m"
  shows "delete_item L e h i d = (server_error m, d)"
  using assms
  by (simp add: delete_item_def protected_def catch_500_def delete_item_try_def Item_findById_def)

text \<open>An update keeps a valid item valid unless the quantity sent is \<open>null\<close>.\<close>

lemma update_fields_paths:
  assumes "valid_item old"
  shows "item_paths (update_fields e nm q ds old) = (if q = Null then [''quantity''] else [])"
proof -
  from assms have n: "required_string (js_or nm (name old))"
    by (cases nm) (auto simp: valid_item_def js_or_def)
  from assms have "required_number (if q \<noteq> Undefined then q else quantity old) = (q \<noteq> Null)"
    by (cases q) (auto simp: valid_item_def)
  with n show ?thesis
    by (simp add: item_paths_def update_fields_def)
qed

lemma put_item_succeeds:
  assumes "authenticateToken L e h = Inr u" and "castObjectId L i = Inr k"
    and "fault e OpItemFindById = None" and "fault e OpItemSave = None"
    and "find (\<lambda>x. item_id x = k) (items d) = Some old" and "valid_item old" and "q \<noteq> Null"
  shows "put_item L e h i nm q ds d =
           (\<lparr>status = 200, body = ItemDoc (update_fields e nm q ds old)\<rparr>,
            d\<lparr>items := map (\<lambda>x. if item_id x = k then update_fields e nm q ds old else x) (items d)\<rparr>)"
proof -
  have "item_id (update_fields e nm q ds old) = k"
    using find_item_Some [OF assms(5)] by (simp add: update_fields_id)
  moreover have "validate_item L (update_fields e nm q ds old) = None"
    using update_fields_paths [OF assms(6)] assms(7) by (simp add: validate_item_def)
  ultimately have "Item_save L e False d (update_fields e nm q ds old) =
      Inr (d\<lparr>items := map (\<lambda>x. if item_id x = k then update_fields e nm q ds old else x) (items d)\<rparr>)"
    using assms(4) by (simp add: Item_save_def)
  with assms(1,5) Item_findById_cast [OF assms(2,3)] show ?thesis
    by (simp add: put_item_def protected_def catch_500_def put_item_try_def Let_def)
qed

lemma put_item_null_quantity:
  assumes "authenticateToken L e h = Inr u" and "castObjectId L i = Inr k"
    and "fault e OpItemFindById = None"
    and "find (\<lambda>x. item_id x = k) (items d) = Some old" and "valid_item old"
  shows "put_item L e h i nm Null ds d =
           (server_error (validation_message L ''Item'' [''quantity'']), d)"
proof -
  have "validate_item L (update_fields e nm Null ds old) =
      Some (ValidationError (validation_message L ''Item'' [''quantity'']))"
    using update_fields_paths [OF assms(5), of e nm Null ds] by (simp add: validate_item_def)
  then have "Item_save L e False d (update_fields e nm Null ds old) =
      Inl (ValidationError (validation_message L ''Item'' [''quantity'']))"
    by (simp add: Item_save_def)
  with assms(1,4) Item_findById_cast [OF assms(2,3)] show ?thesis
    by (simp add: put_item_def protected_def catch_500_def put_item_try_def Let_def)
qed

lemma update_fields_policy:
  "(nm = Undefined \<or> nm = Null \<or> nm = Val [] \<longrightarrow>
      name (update_fields e nm q ds old) = name old) \<and>
   (\<forall>s. nm = Val s \<and> s \<noteq> [] \<longrightarrow> name (update_fields e nm q ds old) = Val s) \<and>
   (ds = Undefined \<or> ds = Null \<or> ds = Val [] \<longrightarrow>
      description (update_fields e nm q ds old) = description old) \<and>
   (\<forall>s. ds = Val s \<and> s \<noteq> [] \<longrightarrow> description (update_fields e nm q ds old) = Val s) \<and>
   (q = Undefined \<longrightarrow> quantity (update_fields e nm q ds old) = quantity old) \<and>
   (q \<noteq> Undefined \<longrightarrow> quantity (update_fields e nm q ds old) = q) \<and>
   (q = Val 0 \<longrightarrow> quantity (update_fields e nm q ds old) = Val 0) \<and>
   lastUpdated (update_fields e nm q ds old) = now e"
  by (auto simp: update_fields_def js_or_def)

lemma sample_put_quantity:
  "put_item sample_libs sample_env sample_auth widget_id Undefined (Val 0) Undefined sample_db =
     (\<lparr>status = 200, body = ItemDoc (widget\<lparr>quantity := Val 0, lastUpdated := 1000\<rparr>)\<rparr>,
      sample_db\<lparr>items := [gizmo, widget\<lparr>quantity := Val 0, lastUpdated := 1000\<rparr>]\<rparr>)"
proof -
  have found: "find (\<lambda>x. item_id x = widget_id) (items sample_db) = Some widget"
    by (simp add: sample_ids)
  have valid: "valid_item widget"
    by (simp add: valid_item_def widget_def)
  have upd: "update_fields sample_env Undefined (Val 0) Undefined widget =
      widget\<lparr>quantity := Val 0, lastUpdated := 1000\<rparr>"
    by (simp add: update_fields_def js_or_def sample_env_fields)
  from put_item_succeeds [OF sample_authenticated sample_casts(1) sample_env_fields(4)
      sample_env_fields(4) found valid, of "Val 0" Undefined Undefined]
  show ?thesis
    by (simp add: upd sample_ids)
qed

text \<open>
  C2. Take an authenticated update request for the id of a stored item (which passed
  validation when it was stored), with storage calls that do not throw. Unless the
  quantity sent is \<open>null\<close>, the request answers 200 and returns and stores, in the place
  of the found item, an item with the same id and these fields: the name and the
  description are replaced only by a non-empty string (absent, \<open>null\<close> and the empty
  string leave them as they were, so the empty string cannot clear them); the quantity is
  kept only when it is absent and is otherwise the value sent, zero included; lastUpdated
  is the time of the update. The same holds of every update that answers 200, whatever the
  request. A \<open>null\<close> quantity is refused by validation: nothing is updated.
\<close>

theorem update_partial_fields:
  "(authenticateToken L e h = Inr u \<and> castObjectId L i = Inr k \<and>
    fault e OpItemFindById = None \<and> fault e OpItemSave = None \<and>
    find (\<lambda>x. item_id x = k) (items d) = Some old \<and> valid_item old \<and> q \<noteq> Null \<longrightarrow>
      (\<exists>new.
         put_item L e h i nm q ds d =
           (\<lparr>status = 200, body = ItemDoc new\<rparr>,
            d\<lparr>items := map (\<lambda>x. if item_id x = k then new else x) (items d)\<rparr>) \<and>
         item_id new = k \<and>
         (nm = Undefined \<or> nm = Null \<or> nm = Val [] \<longrightarrow> name new = name old) \<and>
         (\<forall>s. nm = Val s \<and> s \<noteq> [] \<longrightarrow> name new = Val s) \<and>
         (ds = Undefined \<or> ds = Null \<or> ds = Val [] \<longrightarrow> description new = description old) \<and>
         (\<forall>s. ds = Val s \<and> s \<noteq> [] \<longrightarrow> description new = Val s) \<and>
         (q = Undefined \<longrightarrow> quantity new = quantity old) \<and>
         (q \<noteq> Undefined \<longrightarrow> quantity new = q) \<and>
         (q = Val 0 \<longrightarrow> quantity new = Val 0) \<and>
         lastUpdated new = now e)) \<and>
   (put_item L e h i nm q ds d = (r, d') \<and> status r = 200 \<longrightarrow>
      (\<exists>k' old' new.
         castObjectId L i = Inr k' \<and>
         find (\<lambda>x. item_id x = k') (items d) = Some old' \<and>
         body r = ItemDoc new \<and>
         find (\<lambda>x. item_id x = k') (items d') = Some new \<and>
         (nm = Undefined \<or> nm = Null \<or> nm = Val [] \<longrightarrow> name new = name old') \<and>
         (\<forall>s. nm = Val s \<and> s \<noteq> [] \<longrightarrow> name new = Val s) \<and>
         (ds = Undefined \<or> ds = Null \<or> ds = Val [] \<longrightarrow> description new = description old') \<and>
         (\<forall>s. ds = Val s \<and> s \<noteq> [] \<longrightarrow> description new = Val s) \<and>
         (q = Undefined \<longrightarrow> quantity new = quantity old') \<and>
         (q \<noteq> Undefined \<longrightarrow> quantity new = q) \<and>
         (q = Val 0 \<longrightarrow> quantity new = Val 0) \<and>
         lastUpdated new = now e)) \<and>
   (authenticateToken L e h = Inr u \<and> castObjectId L i = Inr k \<and>
    fault e OpItemFindById = None \<and>
    find (\<lambda>x. item_id x = k) (items d) = Some old \<and> valid_item old \<and> q = Null \<longrightarrow>
      put_item L e h i nm q ds d = (server_error (validation_message L ''Item'' [''quantity'']), d))"
proof (intro conjI impI)
  assume a: "authenticateToken L e h = Inr u \<and> castObjectId L i = Inr k \<and>
    fault e OpItemFindById = None \<and> fault e OpItemSave = None \<and>
    find (\<lambda>x. item_id x = k) (items d) = Some old \<and> valid_item old \<and> q \<noteq> Null"
  define new where "new = update_fields e nm q ds old"
  from a have run: "put_item L e h i nm q ds d =
      (\<lparr>status = 200, body = ItemDoc new\<rparr>,
       d\<lparr>items := map (\<lambda>x. if item_id x = k then new else x) (items d)\<rparr>)"
    unfolding new_def using put_item_succeeds [of L e h u i k d old q nm ds] by blast
  from a have idn: "item_id new = k"
    using find_item_Some [of k "items d" old] by (simp add: new_def update_fields_id)
  from run idn update_fields_policy [of nm e q ds old, folded new_def]
  show "\<exists>new.
         put_item L e h i nm q ds d =
           (\<lparr>status = 200, body = ItemDoc new\<rparr>,
            d\<lparr>items := map (\<lambda>x. if item_id x = k then new else x) (items d)\<rparr>) \<and>
         item_id new = k \<and>
         (nm = Undefined \<or> nm = Null \<or> nm = Val [] \<longrightarrow> name new = name old) \<and>
         (\<forall>s. nm = Val s \<and> s \<noteq> [] \<longrightarrow> name new = Val s) \<and>
         (ds = Undefined \<or> ds = Null \<or> ds = Val [] \<longrightarrow> description new = description old) \<and>
         (\<forall>s. ds = Val s \<and> s \<noteq> [] \<longrightarrow> description new = Val s) \<and>
         (q = Undefined \<longrightarrow> quantity new = quantity old) \<and>
         (q \<noteq> Undefined \<longrightarrow> quantity new = q) \<and>
         (q = Val 0 \<longrightarrow> quantity new = Val 0) \<and>
         lastUpdated new = now e"
    by (intro exI [of _ new]) blast
next
  assume b: "put_item L e h i nm q ds d = (r, d') \<and> status r = 200"
  then obtain k' old' where
    k': "castObjectId L i = Inr k'"
    and old': "find (\<lambda>x. item_id x = k') (items d) = Some old'"
    and r: "r = \<lparr>status = 200, body = ItemDoc (update_fields e nm q ds old')\<rparr>"
    and d': "d' = d\<lparr>items := map (\<lambda>x. if item_id x = k' then update_fields e nm q ds old' else x) (items d)\<rparr>"
    using put_item_ok [of L e h i nm q ds d r d'] by blast
  define new where "new = update_fields e nm q ds old'"
  have idn: "item_id new = k'"
    using find_item_Some [OF old'] by (simp add: new_def update_fields_id)
  have stored: "find (\<lambda>x. item_id x = k') (items d') = Some new"
    using find_replaced [OF old' idn] unfolding d' new_def by simp
  have "body r = ItemDoc new"
    by (simp add: r new_def)
  with k' old' stored update_fields_policy [of nm e q ds old', folded new_def]
  show "\<exists>k' old' new.
         castObjectId L i = Inr k' \<and>
         find (\<lambda>x. item_id x = k') (items d) = Some old' \<and>
         body r = ItemDoc new \<and>
         find (\<lambda>x. item_id x = k') (items d') = Some new \<and>
         (nm = Undefined \<or> nm = Null \<or> nm = Val [] \<longrightarrow> name new = name old') \<and>
         (\<forall>s. nm = Val s \<and> s \<noteq> [] \<longrightarrow> name new = Val s) \<and>
         (ds = Undefined \<or> ds = Null \<or> ds = Val [] \<longrightarrow> description new = description old') \<and>
         (\<forall>s. ds = Val s \<and> s \<noteq> [] \<longrightarrow> description new = Val s) \<and>
         (q = Undefined \<longrightarrow> quantity new = quantity old') \<and>
         (q \<noteq> Undefined \<longrightarrow> quantity new = q) \<and>
         (q = Val 0 \<longrightarrow> quantity new = Val 0) \<and>
         lastUpdated new = now e"
    by (intro exI [of _ k'] exI [of _ old'] exI [of _ new]) blast
next
  assume c: "authenticateToken L e h = Inr u \<and> castObjectId L i = Inr k \<and>
    fault e OpItemFindById = None \<and>
    find (\<lambda>x. item_id x = k) (items d) = Some old \<and> valid_item old \<and> q = Null"
  then show "put_item L e h i nm q ds d = (server_error (validation_message L ''Item'' [''quantity'']), d)"
    using put_item_null_quantity [of L e h u i k d old nm ds] by blast
qed

theorem update_partial_fields_witness:
  "(\<exists>new.
      put_item sample_libs sample_env sample_auth widget_id Undefined (Val 0) Undefined sample_db =
        (\<lparr>status = 200, body = ItemDoc new\<rparr>,
         sample_db\<lparr>items := map (\<lambda>x. if item_id x = widget_id then new else x) (items sample_db)\<rparr>) \<and>
      item_id new = widget_id \<and> name new = Val ''Widget'' \<and> description new = Val ''blue'' \<and>
      quantity new = Val 0 \<and> lastUpdated new = 1000) \<and>
   (\<exists>new.
      put_item sample_libs sample_env sample_auth gizmo_id (Val ''Gadget'') Undefined (Val []) sample_db =
        (\<lparr>status = 200, body = ItemDoc new\<rparr>,
         sample_db\<lparr>items := map (\<lambda>x. if item_id x = gizmo_id then new else x) (items sample_db)\<rparr>) \<and>
      item_id new = gizmo_id \<and> name new = Val ''Gadget'' \<and> description new = Undefined \<and>
      quantity new = Val 2 \<and> lastUpdated new = 1000) \<and>
   put_item sample_libs sample_env sample_auth widget_id Undefined Null Undefined sample_db =
     (server_error (validation_message sample_libs ''Item'' [''quantity'']), sample_db)"
proof -
  have w: "find (\<lambda>x. item_id x = widget_id) (items sample_db) = Some widget" "valid_item widget"
    "name widget = Val ''Widget''" "description widget = Val ''blue''"
    by (simp_all add: sample_ids valid_item_def widget_def)
  have g: "find (\<lambda>x. item_id x = gizmo_id) (items sample_db) = Some gizmo" "valid_item gizmo"
    "quantity gizmo = Val 2" "description gizmo = Undefined"
    by (simp_all add: sample_ids valid_item_def gizmo_def)
  note inst = update_partial_fields [where L = sample_libs and e = sample_env and h = sample_auth
      and u = sample_user and d = sample_db]
  from inst [where i = widget_id and k = widget_id and old = widget and nm = Undefined
      and q = "Val 0" and ds = Undefined]
    sample_authenticated sample_casts(1) sample_env_fields w
  have a: "\<exists>new.
      put_item sample_libs sample_env sample_auth widget_id Undefined (Val 0) Undefined sample_db =
        (\<lparr>status = 200, body = ItemDoc new\<rparr>,
         sample_db\<lparr>items := map (\<lambda>x. if item_id x = widget_id then new else x) (items sample_db)\<rparr>) \<and>
      item_id new = widget_id \<and> name new = Val ''Widget'' \<and> description new = Val ''blue'' \<and>
      quantity new = Val 0 \<and> lastUpdated new = 1000"
    by simp
  from inst [where i = gizmo_id and k = gizmo_id and old = gizmo and nm = "Val ''Gadget''"
      and q = Undefined and ds = "Val []"]
    sample_authenticated sample_casts(2) sample_env_fields g
  have b: "\<exists>new.
      put_item sample_libs sample_env sample_auth gizmo_id (Val ''Gadget'') Undefined (Val []) sample_db =
        (\<lparr>status = 200, body = ItemDoc new\<rparr>,
         sample_db\<lparr>items := map (\<lambda>x. if item_id x = gizmo_id then new else x) (items sample_db)\<rparr>) \<and>
      item_id new = gizmo_id \<and> name new = Val ''Gadget'' \<and> description new = Undefined \<and>
      quantity new = Val 2 \<and> lastUpdated new = 1000"
    by simp
  from inst [where i = widget_id and k = widget_id and old = widget and nm = Undefined
      and q = Null and ds = Undefined]
    sample_authenticated sample_casts(1) sample_env_fields w
  have c: "put_item sample_libs sample_env sample_auth widget_id Undefined Null Undefined sample_db =
     (server_error (validation_message sample_libs ''Item'' [''quantity'']), sample_db)"
    by simp
  from a b c show ?thesis by blast
qed

text \<open>
  C10. An update that answers 200 leaves the user collection as it was, keeps the id of
  every stored item in its place (the target's included), leaves every item whose id is
  not the requested one unchanged, and returns an item with the requested id. The
  requested id is the ObjectId the route parameter is cast to.
\<close>

theorem update_frame:
  assumes "put_item L e h i nm q ds d = (r, d')" and "status r = 200"
  shows "\<exists>k. castObjectId L i = Inr k \<and>
           users d' = users d \<and>
           map item_id (items d') = map item_id (items d) \<and>
           (\<forall>j < length (items d). item_id (items d ! j) \<noteq> k \<longrightarrow> items d' ! j = items d ! j) \<and>
           (\<exists>new. body r = ItemDoc new \<and> item_id new = k)"
proof -
  from put_item_ok [OF assms] obtain k old where
    k: "castObjectId L i = Inr k"
    and old: "find (\<lambda>x. item_id x = k) (items d) = Some old"
    and r: "r = \<lparr>status = 200, body = ItemDoc (update_fields e nm q ds old)\<rparr>"
    and d': "d' = d\<lparr>items := map (\<lambda>x. if item_id x = k then update_fields e nm q ds old else x) (items d)\<rparr>"
    by blast
  have idn: "item_id (update_fields e nm q ds old) = k"
    using find_item_Some [OF old] by (simp add: update_fields_id)
  have ids: "map item_id (items d') = map item_id (items d)"
    using idn by (simp add: d')
  have others: "\<forall>j < length (items d). item_id (items d ! j) \<noteq> k \<longrightarrow> items d' ! j = items d ! j"
    by (simp add: d')
  have "users d' = users d"
    by (simp add: d')
  with k idn ids others show ?thesis
    by (simp add: r)
qed

theorem update_frame_witness:
  "\<exists>k. castObjectId sample_libs widget_id = Inr k \<and>
     users (snd (put_item sample_libs sample_env sample_auth widget_id
                   Undefined (Val 0) Undefined sample_db)) = users sample_db \<and>
     map item_id (items (snd (put_item sample_libs sample_env sample_auth widget_id
                   Undefined (Val 0) Undefined sample_db))) = [gizmo_id, widget_id] \<and>
     items (snd (put_item sample_libs sample_env sample_auth widget_id
                   Undefined (Val 0) Undefined sample_db)) ! 0 = gizmo \<and>
     (\<exists>new. body (fst (put_item sample_libs sample_env sample_auth widget_id
                   Undefined (Val 0) Undefined sample_db)) = ItemDoc new \<and> item_id new = k)"
proof -
  have run: "put_item sample_libs sample_env sample_auth widget_id Undefined (Val 0) Undefined sample_db =
      (fst (put_item sample_libs sample_env sample_auth widget_id Undefined (Val 0) Undefined sample_db),
       snd (put_item sample_libs sample_env sample_auth widget_id Undefined (Val 0) Undefined sample_db))"
    by simp
  have ok: "status (fst (put_item sample_libs sample_env sample_auth widget_id
                           Undefined (Val 0) Undefined sample_db)) = 200"
    by (simp add: sample_put_quantity)
  have ids: "map item_id (items sample_db) = [gizmo_id, widget_id]"
    and first: "items sample_db ! 0 = gizmo" "item_id gizmo \<noteq> widget_id" "0 < length (items sample_db)"
    by (simp_all add: sample_ids)
  from update_frame [OF run ok] obtain k where
    k: "castObjectId sample_libs widget_id = Inr k"
    and rest: "users (snd (put_item sample_libs sample_env sample_auth widget_id
                   Undefined (Val 0) Undefined sample_db)) = users sample_db"
      "map item_id (items (snd (put_item sample_libs sample_env sample_auth widget_id
                   Undefined (Val 0) Undefined sample_db))) = map item_id (items sample_db)"
      "\<forall>j < length (items sample_db). item_id (items sample_db ! j) \<noteq> k \<longrightarrow>
         items (snd (put_item sample_libs sample_env sample_auth widget_id
                   Undefined (Val 0) Undefined sample_db)) ! j = items sample_db ! j"
      "\<exists>new. body (fst (put_item sample_libs sample_env sample_auth widget_id
                   Undefined (Val 0) Undefined sample_db)) = ItemDoc new \<and> item_id new = k"
    by blast
  from k sample_casts(1) have kw: "k = widget_id"
    by simp
  with rest(3) first have "items (snd (put_item sample_libs sample_env sample_auth widget_id
                   Undefined (Val 0) Undefined sample_db)) ! 0 = gizmo"
    by metis
  with k rest(1,2,4) ids show ?thesis
    by (intro exI [of _ k]) simp
qed

text \<open>
  C6 (as amended). For an authenticated request whose id parameter is an ObjectId and
  whose lookup does not throw, update and delete answer 404 "Item not found" when no stored
  item has that id, and the database is unchanged. After a delete that answered 200, a
  second delete of the same id answers 404.
\<close>

theorem missing_item_not_found:
  "(authenticateToken L e h = Inr u \<and> castObjectId L i = Inr k \<and>
    fault e OpItemFindById = None \<and> k \<notin> item_id ` set (items d) \<longrightarrow>
      put_item L e h i nm q ds d = (\<lparr>status = 404, body = Message ''Item not found''\<rparr>, d) \<and>
      delete_item L e h i d = (\<lparr>status = 404, body = Message ''Item not found''\<rparr>, d)) \<and>
   (delete_item L e1 h1 i d = (r1, d1) \<and> status r1 = 200 \<and>
    authenticateToken L e2 h2 = Inr u2 \<and> fault e2 OpItemFindById = None \<longrightarrow>
      delete_item L e2 h2 i d1 = (\<lparr>status = 404, body = Message ''Item not found''\<rparr>, d1))"
proof (intro conjI impI)
  assume a: "authenticateToken L e h = Inr u \<and> castObjectId L i = Inr k \<and>
             fault e OpItemFindById = None \<and> k \<notin> item_id ` set (items d)"
  then show "put_item L e h i nm q ds d = (\<lparr>status = 404, body = Message ''Item not found''\<rparr>, d)"
    using not_found_put [of L e h u i k d] by blast
  from a show "delete_item L e h i d = (\<lparr>status = 404, body = Message ''Item not found''\<rparr>, d)"
    using not_found_delete [of L e h u i k d] by blast
next
  assume b: "delete_item L e1 h1 i d = (r1, d1) \<and> status r1 = 200 \<and>
             authenticateToken L e2 h2 = Inr u2 \<and> fault e2 OpItemFindById = None"
  then obtain k where k: "castObjectId L i = Inr k"
    and d1: "d1 = d\<lparr>items := filter (\<lambda>x. item_id x \<noteq> k) (items d)\<rparr>"
    using delete_item_ok [of L e1 h1 i d r1 d1] by blast
  from d1 have "k \<notin> item_id ` set (items d1)"
    by auto
  with b k show "delete_item L e2 h2 i d1 = (\<lparr>status = 404, body = Message ''Item not found''\<rparr>, d1)"
    using not_found_delete [of L e2 h2 u2 i k d1] by blast
qed

lemma sample_delete_widget:
  "delete_item sample_libs sample_env sample_auth widget_id sample_db =
     (\<lparr>status = 200, body = Message ''Item removed successfully''\<rparr>, sample_db\<lparr>items := [gizmo]\<rparr>)"
  using sample_ids
  by (simp add: delete_item_def protected_accepted [OF sample_authenticated] catch_500_def
        delete_item_try_def Item_findById_cast [OF sample_casts(1) sample_env_fields(4)]
        Item_deleteOne_def sample_env_fields)

theorem missing_item_not_found_witness:
  "put_item sample_libs sample_env sample_auth absent_id (Val ''x'') Undefined Undefined sample_db =
     (\<lparr>status = 404, body = Message ''Item not found''\<rparr>, sample_db) \<and>
   delete_item sample_libs sample_env sample_auth absent_id sample_db =
     (\<lparr>status = 404, body = Message ''Item not found''\<rparr>, sample_db) \<and>
   status (fst (delete_item sample_libs sample_env sample_auth widget_id sample_db)) = 200 \<and>
   delete_item sample_libs sample_env sample_auth widget_id
       (snd (delete_item sample_libs sample_env sample_auth widget_id sample_db)) =
     (\<lparr>status = 404, body = Message ''Item not found''\<rparr>,
      snd (delete_item sample_libs sample_env sample_auth widget_id sample_db))"
proof -
  have absent: "authenticateToken sample_libs sample_env sample_auth = Inr sample_user \<and>
                castObjectId sample_libs absent_id = Inr absent_id \<and>
                fault sample_env OpItemFindById = None \<and> absent_id \<notin> item_id ` set (items sample_db)"
    by (simp add: sample_authenticated sample_casts sample_env_fields sample_ids)
  have ok: "status (fst (delete_item sample_libs sample_env sample_auth widget_id sample_db)) = 200"
    by (simp add: sample_delete_widget)
  from absent ok
    missing_item_not_found [where L = sample_libs and e = sample_env
      and h = sample_auth and u = sample_user and i = absent_id and k = absent_id and d = sample_db]
    missing_item_not_found [where L = sample_libs and ?e1.0 = sample_env
      and ?h1.0 = sample_auth and i = widget_id and d = sample_db
      and ?r1.0 = "fst (delete_item sample_libs sample_env sample_auth widget_id sample_db)"
      and ?d1.0 = "snd (delete_item sample_libs sample_env sample_auth widget_id sample_db)"
      and ?e2.0 = sample_env and ?h2.0 = sample_auth and ?u2.0 = sample_user]
  show ?thesis by simp
qed

text \<open>
  The claim as first stated fails for an id parameter that is no ObjectId: it resolves to
  no stored item, and \<open>findById\<close> throws a CastError that the catch block answers with
  500, not 404.
\<close>

theorem malformed_id_counterexample:
  "''i9'' \<notin> item_id ` set (items sample_db) \<and>
   status (fst (delete_item sample_libs sample_env sample_auth ''i9'' sample_db)) = 500 \<and>
   status (fst (put_item sample_libs sample_env sample_auth ''i9'' (Val ''x'') Undefined Undefined
                  sample_db)) = 500 \<and>
   delete_item sample_libs sample_env sample_auth ''i9'' sample_db \<noteq>
     (\<lparr>status = 404, body = Message ''Item not found''\<rparr>, sample_db)"
proof -
  from sample_cast_fails obtain m where m: "castObjectId sample_libs ''i9'' = Inl m"
    by blast
  have "''i9'' \<notin> item_id ` set (items sample_db)"
    by (simp add: sample_ids widget_id_def gizmo_id_def)
  with cast_error_delete [OF sample_authenticated m]
    cast_error_put [OF sample_authenticated m]
  show ?thesis
    by (simp add: server_error_def)
qed

subsection \<open>Creating an item\<close>

lemma required_string_iff: "required_string nm = (\<exists>s. nm = Val s \<and> s \<noteq> [])"
  by (cases nm) auto

lemma new_Item_paths:
  "item_paths (new_Item e nm q ds) =
     (if required_string nm then [] else [''name'']) @ (if q = Null then [''quantity''] else [])"
  by (cases q) (simp_all add: item_paths_def new_Item_def)

lemma post_item_invalid:
  assumes "authenticateToken L e h = Inr u" and "item_paths (new_Item e nm q ds) \<noteq> []"
  shows "post_item L e h nm q ds d =
           (server_error (validation_message L ''Item'' (item_paths (new_Item e nm q ds))), d)"
  using assms
  by (simp add: post_item_def protected_def catch_500_def post_item_try_def Let_def
        Item_save_def validate_item_def)

lemma post_item_created:
  assumes "authenticateToken L e h = Inr u" and "required_string nm" and "q \<noteq> Null"
    and "fault e OpItemSave = None" and "new_id e \<notin> item_id ` set (items d)"
  shows "post_item L e h nm q ds d =
           (\<lparr>status = 201, body = ItemDoc (new_Item e nm q ds)\<rparr>,
            d\<lparr>items := items d @ [new_Item e nm q ds]\<rparr>)"
proof -
  have "validate_item L (new_Item e nm q ds) = None"
    using assms(2,3) by (simp add: validate_item_def new_Item_paths)
  moreover have "\<not> (\<exists>x \<in> set (items d). item_id x = item_id (new_Item e nm q ds))"
    using assms(5) by (force simp: new_Item_def)
  ultimately show ?thesis
    using assms(1,4)
    by (simp add: post_item_def protected_def catch_500_def post_item_try_def Let_def Item_save_def)
qed

lemma get_items_listed:
  assumes "authenticateToken L e h = Inr u" and "fault e OpItemFind = None"
  shows "get_items L e h d = (\<lparr>status = 200, body = ItemDocs (items d)\<rparr>, d)"
  using assms
  by (simp add: get_items_def protected_def catch_500_def get_items_try_def Item_find_def)

lemma sample_messages:
  "validation_message sample_libs ''Item'' [''name''] =
     ''Item validation failed: name: Path `name` is required.''"
  "validation_message sample_libs ''Item'' [''quantity''] =
     ''Item validation failed: quantity: Path `quantity` is required.''"
  by (simp_all add: sample_libs_def)

text \<open>
  C5 (as amended). For an authenticated create request, validation refuses a name that is
  absent, \<open>null\<close> or empty, and a \<open>null\<close> quantity: the answer is 500 "Server error"
  carrying the message of the ValidationError, which names every path that failed, and
  nothing is stored. An absent quantity is not refused: the schema's default 0 is applied.
  A request that passes validation, whose save does not throw and whose generated id is
  new, answers 201 with the created item, whose lastUpdated is the creation time; the item
  is appended to the collection, and a listing made afterwards returns the collection with
  exactly that record at its end.
\<close>

theorem create_item_validation:
  assumes "authenticateToken L e h = Inr u"
  shows
    "(nm = Undefined \<or> nm = Null \<or> nm = Val [] \<longrightarrow>
        post_item L e h nm q ds d =
          (server_error (validation_message L ''Item''
             ([''name''] @ (if q = Null then [''quantity''] else []))), d)) \<and>
     ((\<exists>s. nm = Val s \<and> s \<noteq> []) \<and> q = Null \<longrightarrow>
        post_item L e h nm q ds d =
          (server_error (validation_message L ''Item'' [''quantity'']), d)) \<and>
     ((\<exists>s. nm = Val s \<and> s \<noteq> []) \<and> q \<noteq> Null \<and> fault e OpItemSave = None \<and>
      new_id e \<notin> item_id ` set (items d) \<longrightarrow>
        (\<exists>it. post_item L e h nm q ds d =
                 (\<lparr>status = 201, body = ItemDoc it\<rparr>, d\<lparr>items := items d @ [it]\<rparr>) \<and>
               item_id it = new_id e \<and> name it = nm \<and>
               quantity it = (if q = Undefined then Val 0 else q) \<and>
               description it = ds \<and> lastUpdated it = now e \<and>
               (authenticateToken L e' h' = Inr u' \<and> fault e' OpItemFind = None \<longrightarrow>
                  get_items L e' h' (d\<lparr>items := items d @ [it]\<rparr>) =
                    (\<lparr>status = 200, body = ItemDocs (items d @ [it])\<rparr>,
                     d\<lparr>items := items d @ [it]\<rparr>))))"
proof (intro conjI impI)
  assume "nm = Undefined \<or> nm = Null \<or> nm = Val []"
  then have "item_paths (new_Item e nm q ds) = [''name''] @ (if q = Null then [''quantity''] else [])"
    by (auto simp: new_Item_paths)
  with post_item_invalid [OF assms, where nm = nm and q = q and ds = ds and d = d]
  show "post_item L e h nm q ds d =
      (server_error (validation_message L ''Item''
         ([''name''] @ (if q = Null then [''quantity''] else []))), d)"
    by simp
next
  assume "(\<exists>s. nm = Val s \<and> s \<noteq> []) \<and> q = Null"
  then have "item_paths (new_Item e nm q ds) = [''quantity'']"
    by (auto simp: new_Item_paths)
  with post_item_invalid [OF assms, where nm = nm and q = q and ds = ds and d = d]
  show "post_item L e h nm q ds d =
      (server_error (validation_message L ''Item'' [''quantity'']), d)"
    by simp
next
  assume a: "(\<exists>s. nm = Val s \<and> s \<noteq> []) \<and> q \<noteq> Null \<and> fault e OpItemSave = None \<and>
             new_id e \<notin> item_id ` set (items d)"
  then have "required_string nm"
    by (simp add: required_string_iff)
  with assms a have created: "post_item L e h nm q ds d =
      (\<lparr>status = 201, body = ItemDoc (new_Item e nm q ds)\<rparr>, d\<lparr>items := items d @ [new_Item e nm q ds]\<rparr>)"
    by (simp add: post_item_created)
  have fields: "item_id (new_Item e nm q ds) = new_id e \<and> name (new_Item e nm q ds) = nm \<and>
      quantity (new_Item e nm q ds) = (if q = Undefined then Val 0 else q) \<and>
      description (new_Item e nm q ds) = ds \<and> lastUpdated (new_Item e nm q ds) = now e"
    by (cases q) (simp_all add: new_Item_def)
  have listed: "authenticateToken L e' h' = Inr u' \<and> fault e' OpItemFind = None \<longrightarrow>
      get_items L e' h' (d\<lparr>items := items d @ [new_Item e nm q ds]\<rparr>) =
        (\<lparr>status = 200, body = ItemDocs (items d @ [new_Item e nm q ds])\<rparr>,
         d\<lparr>items := items d @ [new_Item e nm q ds]\<rparr>)"
    by (simp add: get_items_listed)
  from created fields listed
  show "\<exists>it. post_item L e h nm q ds d =
                 (\<lparr>status = 201, body = ItemDoc it\<rparr>, d\<lparr>items := items d @ [it]\<rparr>) \<and>
               item_id it = new_id e \<and> name it = nm \<and>
               quantity it = (if q = Undefined then Val 0 else q) \<and>
               description it = ds \<and> lastUpdated it = now e \<and>
               (authenticateToken L e' h' = Inr u' \<and> fault e' OpItemFind = None \<longrightarrow>
                  get_items L e' h' (d\<lparr>items := items d @ [it]\<rparr>) =
                    (\<lparr>status = 200, body = ItemDocs (items d @ [it])\<rparr>,
                     d\<lparr>items := items d @ [it]\<rparr>))"
    by (intro exI [of _ "new_Item e nm q ds"]) blast
qed

theorem create_item_validation_witness:
  "post_item sample_libs sample_env sample_auth Undefined (Val 5) Undefined sample_db =
     (\<lparr>status = 500,
       body = ServerError ''Server error'' ''Item validation failed: name: Path `name` is required.''\<rparr>,
      sample_db) \<and>
   post_item sample_libs sample_env sample_auth (Val ''Widget'') Null Undefined sample_db =
     (\<lparr>status = 500,
       body = ServerError ''Server error''
                ''Item validation failed: quantity: Path `quantity` is required.''\<rparr>,
      sample_db) \<and>
   post_item sample_libs sample_env sample_auth Null Null Undefined sample_db =
     (server_error (validation_message sample_libs ''Item'' [''name'', ''quantity'']), sample_db) \<and>
   (\<exists>it. post_item sample_libs sample_env sample_auth (Val ''Widget'') (Val 5) Undefined sample_db =
            (\<lparr>status = 201, body = ItemDoc it\<rparr>, sample_db\<lparr>items := items sample_db @ [it]\<rparr>) \<and>
          name it = Val ''Widget'' \<and> quantity it = Val 5 \<and> lastUpdated it = now sample_env \<and>
          get_items sample_libs sample_env sample_auth (sample_db\<lparr>items := items sample_db @ [it]\<rparr>) =
            (\<lparr>status = 200, body = ItemDocs (items sample_db @ [it])\<rparr>,
             sample_db\<lparr>items := items sample_db @ [it]\<rparr>))"
proof -
  have fresh: "fault sample_env OpItemSave = None \<and> new_id sample_env \<notin> item_id ` set (items sample_db)"
    using sample_ids by (simp add: sample_env_fields(4))
  have quiet: "fault sample_env OpItemFind = None"
    by (simp add: sample_env_fields)
  note inst = create_item_validation [OF sample_authenticated, where e' = sample_env
      and h' = sample_auth and u' = sample_user and d = sample_db and ds = Undefined]
  from inst [where nm = Undefined and q = "Val 5"]
  have a: "post_item sample_libs sample_env sample_auth Undefined (Val 5) Undefined sample_db =
     (\<lparr>status = 500,
       body = ServerError ''Server error'' ''Item validation failed: name: Path `name` is required.''\<rparr>,
      sample_db)"
    by (simp add: server_error_def sample_messages)
  from inst [where nm = "Val ''Widget''" and q = Null]
  have b: "post_item sample_libs sample_env sample_auth (Val ''Widget'') Null Undefined sample_db =
     (\<lparr>status = 500,
       body = ServerError ''Server error''
                ''Item validation failed: quantity: Path `quantity` is required.''\<rparr>,
      sample_db)"
    by (simp add: server_error_def sample_messages)
  from inst [where nm = Null and q = Null]
  have c: "post_item sample_libs sample_env sample_auth Null Null Undefined sample_db =
     (server_error (validation_message sample_libs ''Item'' [''name'', ''quantity'']), sample_db)"
    by simp
  from inst [where nm = "Val ''Widget''" and q = "Val 5"] fresh quiet sample_authenticated
  have d: "\<exists>it. post_item sample_libs sample_env sample_auth (Val ''Widget'') (Val 5) Undefined sample_db =
            (\<lparr>status = 201, body = ItemDoc it\<rparr>, sample_db\<lparr>items := items sample_db @ [it]\<rparr>) \<and>
          name it = Val ''Widget'' \<and> quantity it = Val 5 \<and> lastUpdated it = now sample_env \<and>
          get_items sample_libs sample_env sample_auth (sample_db\<lparr>items := items sample_db @ [it]\<rparr>) =
            (\<lparr>status = 200, body = ItemDocs (items sample_db @ [it])\<rparr>,
             sample_db\<lparr>items := items sample_db @ [it]\<rparr>)"
    by auto
  from a b c d show ?thesis by blast
qed

text \<open>
  The claim as first stated fails where the quantity is missing: the item is created with
  quantity 0.
\<close>

theorem create_without_quantity_counterexample:
  "post_item sample_libs sample_env sample_auth (Val ''Gadget'') Undefined Undefined sample_db =
     (\<lparr>status = 201,
       body = ItemDoc \<lparr>item_id = ''64b7f00000000000000000a2'', name = Val ''Gadget'',
                        quantity = Val 0, description = Undefined, lastUpdated = 1000\<rparr>\<rparr>,
      sample_db\<lparr>items := [gizmo, widget,
                            \<lparr>item_id = ''64b7f00000000000000000a2'', name = Val ''Gadget'',
                             quantity = Val 0, description = Undefined, lastUpdated = 1000\<rparr>]\<rparr>)"
proof -
  have "new_id sample_env \<notin> item_id ` set (items sample_db)"
    using sample_ids by simp
  from post_item_created [OF sample_authenticated _ _ sample_env_fields(4) this,
      of "Val ''Gadget''" Undefined Undefined]
  show ?thesis
    by (simp add: new_Item_def sample_env_fields sample_ids)
qed

subsection \<open>Errors thrown inside a handler\<close>

lemma authenticate_env:
  "now e' = now e \<Longrightarrow> authenticateToken L e' h = authenticateToken L e h"
  by (simp add: authenticateToken_def split: option.splits)

lemma offline_authenticated:
  "authenticateToken sample_libs offline_env sample_auth = Inr sample_user"
  using authenticate_env [of offline_env sample_env sample_libs] sample_authenticated
  by (simp add: offline_env_def)

lemma readonly_authenticated:
  "authenticateToken sample_libs readonly_env sample_auth = Inr sample_user"
  using authenticate_env [of readonly_env sample_env sample_libs] sample_authenticated
  by (simp add: readonly_env_def)

text \<open>
  C8 (as amended). Every error thrown inside the \<open>try\<close> block of one of the six handlers
  is caught and answered with status 500, the message "Server error" and, in the field
  \<open>error\<close>, the thrown error's own message; the database is left as it was. In
  particular a storage call that throws, at any of the places a handler calls the store,
  is answered with the store's message in that field, and so is the cast of an id
  parameter that is no ObjectId.
\<close>

theorem thrown_errors_reported:
  "(register_try L e un pw d = Inl err \<longrightarrow> register L e un pw d = (server_error (message err), d)) \<and>
   (login_try L e un pw d = Inl err \<longrightarrow> login L e un pw d = (server_error (message err), d)) \<and>
   (authenticateToken L e h = Inr usr \<and> get_items_try e d = Inl err \<longrightarrow>
      get_items L e h d = (server_error (message err), d)) \<and>
   (authenticateToken L e h = Inr usr \<and> post_item_try L e nm q ds d = Inl err \<longrightarrow>
      post_item L e h nm q ds d = (server_error (message err), d)) \<and>
   (authenticateToken L e h = Inr usr \<and> put_item_try L e i nm q ds d = Inl err \<longrightarrow>
      put_item L e h i nm q ds d = (server_error (message err), d)) \<and>
   (authenticateToken L e h = Inr usr \<and> delete_item_try L e i d = Inl err \<longrightarrow>
      delete_item L e h i d = (server_error (message err), d)) \<and>
   (fault e OpUserFindOne = Some m \<longrightarrow>
      register L e un pw d = (server_error m, d) \<and> login L e un pw d = (server_error m, d)) \<and>
   (fault e OpUserFindOne = None \<and> u \<notin> username ` set (users d) \<and> u \<noteq> [] \<and>
    bcrypt_hash L p (salt e) \<noteq> [] \<and> fault e OpUserSave = Some m \<longrightarrow>
      register L e (Val u) (Val p) d = (server_error m, d)) \<and>
   (authenticateToken L e h = Inr usr \<and> fault e OpItemFind = Some m \<longrightarrow>
      get_items L e h d = (server_error m, d)) \<and>
   (authenticateToken L e h = Inr usr \<and> validate_item L (new_Item e nm q ds) = None \<and>
    fault e OpItemSave = Some m \<longrightarrow>
      post_item L e h nm q ds d = (server_error m, d)) \<and>
   (authenticateToken L e h = Inr usr \<and> castObjectId L i = Inl m \<longrightarrow>
      put_item L e h i nm q ds d = (server_error m, d) \<and>
      delete_item L e h i d = (server_error m, d)) \<and>
   (authenticateToken L e h = Inr usr \<and> castObjectId L i = Inr k \<and>
    fault e OpItemFindById = Some m \<longrightarrow>
      put_item L e h i nm q ds d = (server_error m, d) \<and>
      delete_item L e h i d = (server_error m, d)) \<and>
   (authenticateToken L e h = Inr usr \<and> castObjectId L i = Inr k \<and>
    fault e OpItemFindById = None \<and>
    find (\<lambda>x. item_id x = k) (items d) = Some it \<and>
    validate_item L (update_fields e nm q ds it) = None \<and> fault e OpItemSave = Some m \<longrightarrow>
      put_item L e h i nm q ds d = (server_error m, d)) \<and>
   (authenticateToken L e h = Inr usr \<and> castObjectId L i = Inr k \<and>
    fault e OpItemFindById = None \<and>
    k \<in> item_id ` set (items d) \<and> fault e OpItemDeleteOne = Some m \<longrightarrow>
      delete_item L e h i d = (server_error m, d))"
proof (intro conjI impI)
  assume "fault e OpUserFindOne = None \<and> u \<notin> username ` set (users d) \<and> u \<noteq> [] \<and>
          bcrypt_hash L p (salt e) \<noteq> [] \<and> fault e OpUserSave = Some m"
  then show "register L e (Val u) (Val p) d = (server_error m, d)"
    using find_username_None [of u "users d"]
    by (simp add: register_def register_try_def User_findOne_def User_save_def user_paths_def
          bcryptjs_hash_def catch_500_def)
next
  assume a: "authenticateToken L e h = Inr usr \<and> castObjectId L i = Inr k \<and>
          fault e OpItemFindById = None \<and>
          k \<in> item_id ` set (items d) \<and> fault e OpItemDeleteOne = Some m"
  then obtain it where "find (\<lambda>x. item_id x = k) (items d) = Some it"
    using find_item_in [of k "items d"] by blast
  with a show "delete_item L e h i d = (server_error m, d)"
    by (simp add: delete_item_def protected_def catch_500_def delete_item_try_def
          Item_findById_def Item_deleteOne_def)
qed (simp_all add: register_def login_def get_items_def post_item_def put_item_def delete_item_def
       protected_def catch_500_def register_try_def login_try_def get_items_try_def
       post_item_try_def put_item_try_def delete_item_try_def User_findOne_def Item_find_def
       Item_findById_def Item_save_def Let_def)

theorem thrown_errors_reported_witness:
  "register sample_libs offline_env (Val ''alice'') (Val ''pw'') sample_db =
     (server_error ''connect ECONNREFUSED 127.0.0.1:27017'', sample_db) \<and>
   login sample_libs offline_env (Val ''bob'') (Val ''hunter2'') sample_db =
     (server_error ''connect ECONNREFUSED 127.0.0.1:27017'', sample_db) \<and>
   get_items sample_libs offline_env sample_auth sample_db =
     (server_error ''connect ECONNREFUSED 127.0.0.1:27017'', sample_db) \<and>
   put_item sample_libs offline_env sample_auth widget_id Undefined (Val 0) Undefined sample_db =
     (server_error ''connect ECONNREFUSED 127.0.0.1:27017'', sample_db) \<and>
   delete_item sample_libs offline_env sample_auth widget_id sample_db =
     (server_error ''connect ECONNREFUSED 127.0.0.1:27017'', sample_db) \<and>
   register sample_libs readonly_env (Val ''alice'') (Val ''pw'') sample_db =
     (server_error ''not primary'', sample_db) \<and>
   delete_item sample_libs readonly_env sample_auth widget_id sample_db =
     (server_error ''not primary'', sample_db)"
proof -
  have off: "fault offline_env OpUserFindOne = Some ''connect ECONNREFUSED 127.0.0.1:27017''"
    "fault offline_env OpItemFind = Some ''connect ECONNREFUSED 127.0.0.1:27017''"
    "fault offline_env OpItemFindById = Some ''connect ECONNREFUSED 127.0.0.1:27017''"
    by (simp_all add: offline_env_def)
  have ro: "fault readonly_env OpUserFindOne = None" "fault readonly_env OpUserSave = Some ''not primary''"
    "fault readonly_env OpItemFindById = None" "fault readonly_env OpItemDeleteOne = Some ''not primary''"
    "salt readonly_env = ''salt''"
    by (simp_all add: readonly_env_def sample_env_def)
  have data: "''alice'' \<notin> username ` set (users sample_db)" "widget_id \<in> item_id ` set (items sample_db)"
    "bcrypt_hash sample_libs ''pw'' ''salt'' \<noteq> []"
    by (simp_all add: sample_ids) (simp_all add: sample_db_def sample_libs_def)
  from off offline_authenticated sample_casts(1)
    thrown_errors_reported [where L = sample_libs and e = offline_env and d = sample_db
      and un = "Val ''alice''" and pw = "Val ''pw''" and h = sample_auth and usr = sample_user
      and m = "''connect ECONNREFUSED 127.0.0.1:27017''" and i = widget_id and k = widget_id
      and nm = Undefined and q = "Val 0" and ds = Undefined]
  have a: "register sample_libs offline_env (Val ''alice'') (Val ''pw'') sample_db =
      (server_error ''connect ECONNREFUSED 127.0.0.1:27017'', sample_db) \<and>
    get_items sample_libs offline_env sample_auth sample_db =
      (server_error ''connect ECONNREFUSED 127.0.0.1:27017'', sample_db) \<and>
    put_item sample_libs offline_env sample_auth widget_id Undefined (Val 0) Undefined sample_db =
      (server_error ''connect ECONNREFUSED 127.0.0.1:27017'', sample_db) \<and>
    delete_item sample_libs offline_env sample_auth widget_id sample_db =
      (server_error ''connect ECONNREFUSED 127.0.0.1:27017'', sample_db)"
    by simp
  from off
    thrown_errors_reported [where L = sample_libs and e = offline_env and d = sample_db
      and un = "Val ''bob''" and pw = "Val ''hunter2''" and m = "''connect ECONNREFUSED 127.0.0.1:27017''"]
  have b: "login sample_libs offline_env (Val ''bob'') (Val ''hunter2'') sample_db =
      (server_error ''connect ECONNREFUSED 127.0.0.1:27017'', sample_db)"
    by simp
  from ro data readonly_authenticated sample_casts(1)
    thrown_errors_reported [where L = sample_libs and e = readonly_env and d = sample_db
      and u = "''alice''" and p = "''pw''" and h = sample_auth and usr = sample_user
      and m = "''not primary''" and i = widget_id and k = widget_id]
  have c: "register sample_libs readonly_env (Val ''alice'') (Val ''pw'') sample_db =
      (server_error ''not primary'', sample_db) \<and>
    delete_item sample_libs readonly_env sample_auth widget_id sample_db =
      (server_error ''not primary'', sample_db)"
    by simp
  from a b c show ?thesis by simp
qed

text \<open>
  The claim as first stated fails: the answer to a storage fault carries the fault's
  message, so two different faults are answered differently.
\<close>

theorem storage_fault_detail_counterexample:
  "get_items sample_libs offline_env sample_auth sample_db =
     (\<lparr>status = 500,
       body = ServerError ''Server error'' ''connect ECONNREFUSED 127.0.0.1:27017''\<rparr>, sample_db) \<and>
   get_items sample_libs readonly_env sample_auth sample_db =
     (\<lparr>status = 200, body = ItemDocs [gizmo, widget]\<rparr>, sample_db) \<and>
   delete_item sample_libs readonly_env sample_auth widget_id sample_db =
     (\<lparr>status = 500, body = ServerError ''Server error'' ''not primary''\<rparr>, sample_db) \<and>
   fst (delete_item sample_libs offline_env sample_auth widget_id sample_db) \<noteq>
   fst (delete_item sample_libs readonly_env sample_auth widget_id sample_db)"
proof -
  have off: "fault offline_env OpItemFind = Some ''connect ECONNREFUSED 127.0.0.1:27017''"
    "fault offline_env OpItemFindById = Some ''connect ECONNREFUSED 127.0.0.1:27017''"
    by (simp_all add: offline_env_def)
  have ro: "fault readonly_env OpItemFind = None" "fault readonly_env OpItemFindById = None"
    "fault readonly_env OpItemDeleteOne = Some ''not primary''"
    by (simp_all add: readonly_env_def)
  have a: "get_items sample_libs offline_env sample_auth sample_db =
     (\<lparr>status = 500,
       body = ServerError ''Server error'' ''connect ECONNREFUSED 127.0.0.1:27017''\<rparr>, sample_db)"
    by (simp add: get_items_def protected_accepted [OF offline_authenticated] catch_500_def
          server_error_def get_items_try_def Item_find_def off)
  have b: "get_items sample_libs readonly_env sample_auth sample_db =
     (\<lparr>status = 200, body = ItemDocs [gizmo, widget]\<rparr>, sample_db)"
    by (simp add: get_items_def protected_accepted [OF readonly_authenticated] catch_500_def
          server_error_def get_items_try_def Item_find_def ro sample_ids)
  have c: "delete_item sample_libs readonly_env sample_auth widget_id sample_db =
     (\<lparr>status = 500, body = ServerError ''Server error'' ''not primary''\<rparr>, sample_db)"
    using sample_ids
    by (simp add: delete_item_def protected_accepted [OF readonly_authenticated] catch_500_def
          server_error_def delete_item_try_def Item_findById_def sample_casts Item_deleteOne_def ro)
  have d: "delete_item sample_libs offline_env sample_auth widget_id sample_db =
     (\<lparr>status = 500,
       body = ServerError ''Server error'' ''connect ECONNREFUSED 127.0.0.1:27017''\<rparr>, sample_db)"
    by (simp add: delete_item_def protected_accepted [OF offline_authenticated] catch_500_def
          server_error_def delete_item_try_def Item_findById_def sample_casts off)
  from a b c d show ?thesis by simp
qed

subsection \<open>Every handler keeps the keys unique and the stored items valid\<close>

lemma protected_cases:
  "protected L e h handler d = (r, d') \<Longrightarrow> d' = d \<or> (\<exists>u. handler u d = (r, d'))"
  by (auto simp: protected_def split: sum.splits)

lemma catch_500_cases:
  "catch_500 d x = (r, d') \<Longrightarrow> d' = d \<or> x = Inr (r, d')"
  by (cases x) (auto simp: catch_500_def)

lemma User_save_keys:
  assumes "User_save L e d uname hashed = Inr d'" and "unique_keys d"
  shows "unique_keys d'"
proof -
  from User_save_stored [OF assms(1)] obtain u where
    u: "uname = Val u"
    and d': "d' = d\<lparr>users := users d @ [\<lparr>user_id = new_id e, username = u, password = hashed\<rparr>]\<rparr>"
    by blast
  from assms(1) u have "u \<notin> username ` set (users d)"
    by (auto simp: User_save_def split: if_splits option.splits)
  with assms(2) show ?thesis
    by (simp add: d' unique_keys_def)
qed

lemma map_id_replaced:
  "map item_id (map (\<lambda>x. if item_id x = item_id it then it else x) xs) = map item_id xs"
  by (induction xs) auto

lemma Item_save_keys:
  assumes "Item_save L e isNew d it = Inr d'" and "unique_keys d"
  shows "unique_keys d'"
proof (cases isNew)
  case True
  with assms show ?thesis
    by (fastforce simp: Item_save_def unique_keys_def split: option.splits if_splits)
next
  case False
  with assms(1) have "d' = d\<lparr>items := map (\<lambda>x. if item_id x = item_id it then it else x) (items d)\<rparr>"
    by (simp add: Item_save_update)
  then have "map item_id (items d') = map item_id (items d)" and "users d' = users d"
    by (simp_all add: map_id_replaced)
  with assms(2) show ?thesis
    unfolding unique_keys_def by simp
qed

lemma Item_save_valid:
  assumes "Item_save L e isNew d it = Inr d'" and "\<forall>x \<in> set (items d). valid_item x"
  shows "\<forall>x \<in> set (items d'). valid_item x"
proof -
  from assms(1) have "validate_item L it = None"
    by (simp add: Item_save_def split: option.splits)
  then have "valid_item it"
    by (simp add: validate_item_def item_paths_def valid_item_def split: if_splits)
  with assms show ?thesis
    by (auto simp: Item_save_def split: option.splits if_splits)
qed

lemma Item_deleteOne_keys:
  "Item_deleteOne e d it = Inr d' \<Longrightarrow> unique_keys d \<Longrightarrow> unique_keys d'"
  by (auto simp: Item_deleteOne_def unique_keys_def distinct_map_filter split: option.splits)

lemma Item_deleteOne_valid:
  "Item_deleteOne e d it = Inr d' \<Longrightarrow> \<forall>x \<in> set (items d). valid_item x \<Longrightarrow>
   \<forall>x \<in> set (items d'). valid_item x"
  by (auto simp: Item_deleteOne_def split: option.splits)

lemma register_keys:
  assumes "register L e uname pw d = (r, d')" and "unique_keys d"
  shows "unique_keys d'"
proof -
  from catch_500_cases [OF assms(1) [unfolded register_def]]
  show ?thesis
  proof
    assume "d' = d"
    with assms(2) show ?thesis by simp
  next
    assume "register_try L e uname pw d = Inr (r, d')"
    then have "d' = d \<or> (\<exists>hashed. User_save L e d uname hashed = Inr d')"
      by (auto simp: register_try_def split: sum.splits option.splits)
    with assms(2) show ?thesis
      by (auto simp: User_save_keys)
  qed
qed

lemma register_keeps_items: "register L e uname pw d = (r, d') \<Longrightarrow> items d' = items d"
proof -
  assume a: "register L e uname pw d = (r, d')"
  from catch_500_cases [OF a [unfolded register_def]]
  show ?thesis
  proof
    assume "d' = d"
    then show ?thesis by simp
  next
    assume "register_try L e uname pw d = Inr (r, d')"
    then have "d' = d \<or> (\<exists>hashed. User_save L e d uname hashed = Inr d')"
      by (auto simp: register_try_def split: sum.splits option.splits)
    then show ?thesis
    proof
      assume "d' = d"
      then show ?thesis by simp
    next
      assume "\<exists>hashed. User_save L e d uname hashed = Inr d'"
      then obtain hashed where "User_save L e d uname hashed = Inr d'"
        by blast
      from User_save_stored [OF this] obtain u where
        "d' = d\<lparr>users := users d @ [\<lparr>user_id = new_id e, username = u, password = hashed\<rparr>]\<rparr>"
        by blast
      then show ?thesis by simp
    qed
  qed
qed

lemma login_keeps_db: "login L e uname pw d = (r, d') \<Longrightarrow> d' = d"
  by (auto simp: login_def login_try_def Let_def dest!: catch_500_cases
           split: sum.splits option.splits if_splits)

lemma get_items_keeps_db: "get_items L e h d = (r, d') \<Longrightarrow> d' = d"
  by (auto simp: get_items_def get_items_try_def dest!: protected_cases catch_500_cases
           split: sum.splits)

lemma post_item_saves:
  assumes "post_item L e h nm q ds d = (r, d')"
  shows "d' = d \<or> (\<exists>it. Item_save L e True d it = Inr d')"
proof -
  from assms have "d' = d \<or> post_item_try L e nm q ds d = Inr (r, d')"
    by (auto simp: post_item_def dest!: protected_cases catch_500_cases)
  then show ?thesis
    by (auto simp: post_item_try_def Let_def split: sum.splits)
qed

lemma put_item_saves:
  assumes "put_item L e h i nm q ds d = (r, d')"
  shows "d' = d \<or> (\<exists>it. Item_save L e False d it = Inr d')"
proof -
  from assms have "d' = d \<or> put_item_try L e i nm q ds d = Inr (r, d')"
    by (auto simp: put_item_def dest!: protected_cases catch_500_cases)
  then show ?thesis
    by (auto simp: put_item_try_def Let_def split: sum.splits option.splits)
qed

lemma delete_item_deletes:
  assumes "delete_item L e h i d = (r, d')"
  shows "d' = d \<or> (\<exists>it. Item_deleteOne e d it = Inr d')"
proof -
  from assms have "d' = d \<or> delete_item_try L e i d = Inr (r, d')"
    by (auto simp: delete_item_def dest!: protected_cases catch_500_cases)
  then show ?thesis
    by (auto simp: delete_item_try_def split: sum.splits option.splits)
qed

lemma item_routes_keep_keys:
  assumes "unique_keys d"
  shows "post_item L e h nm q ds d = (r, d') \<Longrightarrow> unique_keys d'"
    and "put_item L e h i nm q ds d = (r, d') \<Longrightarrow> unique_keys d'"
    and "delete_item L e h i d = (r, d') \<Longrightarrow> unique_keys d'"
  using assms
  by (auto dest!: post_item_saves put_item_saves delete_item_deletes
           simp: Item_save_keys Item_deleteOne_keys)

lemma item_routes_keep_items_valid:
  assumes "\<forall>x \<in> set (items d). valid_item x"
  shows "post_item L e h nm q ds d = (r, d') \<Longrightarrow> \<forall>x \<in> set (items d'). valid_item x"
    and "put_item L e h i nm q ds d = (r, d') \<Longrightarrow> \<forall>x \<in> set (items d'). valid_item x"
    and "delete_item L e h i d = (r, d') \<Longrightarrow> \<forall>x \<in> set (items d'). valid_item x"
proof -
  show "post_item L e h nm q ds d = (r, d') \<Longrightarrow> \<forall>x \<in> set (items d'). valid_item x"
    using assms post_item_saves [of L e h nm q ds d r d'] Item_save_valid [of L e True d _ d']
    by blast
  show "put_item L e h i nm q ds d = (r, d') \<Longrightarrow> \<forall>x \<in> set (items d'). valid_item x"
    using assms put_item_saves [of L e h i nm q ds d r d'] Item_save_valid [of L e False d _ d']
    by blast
  show "delete_item L e h i d = (r, d') \<Longrightarrow> \<forall>x \<in> set (items d'). valid_item x"
    using assms delete_item_deletes [of L e h i d r d'] Item_deleteOne_valid [of e d _ d']
    by blast
qed


end
